theory Spec2Isabelle
  imports Main "HOL-Library.Char_ord" "HOL-Library.List_Lexorder" "HOL-Library.Product_Lexorder"
begin

section \<open>Database queries of the Postgres contents manager (pgcontents/query.py)\<close>

text \<open>
  The module issues SQL statements against five tables. The embedding keeps every table
  as the list of its rows in insertion order, threads the database through each
  operation, and returns every exception of the source as a value.
\<close>

subsection \<open>Tables\<close>

text \<open>
  Modelled from the spec: the schema module (pgcontents/schema.py) is not part of the
  source tree. The columns are those of the relational schema in section 6 of the
  specification. Identifiers and timestamps are integers; a NULL parent is \<open>None\<close>.
\<close>

record directory_row =
  dir_user_id :: string
  dir_name :: string
  dir_parent_user_id :: "string option"
  dir_parent_name :: "string option"

record file_row =
  file_id :: int
  file_name :: string
  file_user_id :: string
  file_parent_name :: string
  file_content :: string
  file_created_at :: int

record checkpoint_row =
  cp_id :: int
  cp_file_id :: int
  cp_created_at :: int

record remote_checkpoint_row =
  rc_id :: int
  rc_user_id :: string
  rc_path :: string
  rc_content :: string
  rc_last_modified :: int

record db =
  users :: "string list"
  directories :: "directory_row list"
  files :: "file_row list"
  checkpoints :: "checkpoint_row list"
  remote_checkpoints :: "remote_checkpoint_row list"
  files_id_seq :: int
  checkpoints_id_seq :: int
  remote_checkpoints_id_seq :: int

subsection \<open>Errors\<close>

text \<open>
  \<open>IntegrityError\<close> is the failure the backing store raises, with its \<open>pgcode\<close>.
\<close>

datatype db_error = IntegrityError string

text \<open>
  Modelled from the spec: the error module (pgcontents/error.py) is absent. The domain
  errors are the error kinds of section 7 of the specification, each with the arguments
  the source passes to its constructor. \<open>ValueError\<close> and \<open>AssertionError\<close> are
  Python's own, and \<open>DBError\<close> is a failure of the backing store that propagates.
\<close>

datatype error =
    NoSuchFile "string list"
  | NoSuchDirectory "string list"
  | NoSuchCheckpoint "string list"
  | DirectoryNotEmpty "string list"
  | FileExists "string list"
  | AlreadyExists "string list"
  | FileTooLarge
  | ValueError "string list"
  | AssertionError
  | DBError db_error

definition FOREIGN_KEY_VIOLATION :: string where
  "FOREIGN_KEY_VIOLATION = ''23503''"

definition UNIQUE_VIOLATION :: string where
  "UNIQUE_VIOLATION = ''23505''"

definition NOT_NULL_VIOLATION :: string where
  "NOT_NULL_VIOLATION = ''23502''"

subsection \<open>Path codec\<close>

text \<open>
  The path codec (pgcontents/api_utils.py) is absent from the source tree. The
  operations take it as a parameter; paths are validated upstream, so its three
  functions are total.
\<close>

record path_codec =
  from_api_dirname :: "string \<Rightarrow> string"
  from_api_filename :: "string \<Rightarrow> string"
  split_api_filepath :: "string \<Rightarrow> string \<times> string"

text \<open>
  Modelled from the spec: a concrete codec following section 4.1 and section 6 of the
  specification: a directory name is separator-terminated, the root is the separator
  alone, and a file path is split into its separator-terminated parent and its bare
  name. It instantiates the codec parameter at concrete inputs.
\<close>

definition strip_sep :: "string \<Rightarrow> string" where
  "strip_sep s = rev (dropWhile (\<lambda>c. c = CHR ''/'') (rev (dropWhile (\<lambda>c. c = CHR ''/'') s)))"

definition rsplit_sep :: "string \<Rightarrow> (string \<times> string) option" where
  "rsplit_sep s =
     (if CHR ''/'' \<in> set s
      then Some (rev (tl (dropWhile (\<lambda>c. c \<noteq> CHR ''/'') (rev s))),
                 rev (takeWhile (\<lambda>c. c \<noteq> CHR ''/'') (rev s)))
      else None)"

definition spec_from_api_dirname :: "string \<Rightarrow> string" where
  "spec_from_api_dirname p =
     (let n = strip_sep p in if n = [] then ''/'' else ''/'' @ n @ ''/'')"

definition spec_from_api_filename :: "string \<Rightarrow> string" where
  "spec_from_api_filename p = ''/'' @ strip_sep p"

definition spec_split_api_filepath :: "string \<Rightarrow> string \<times> string" where
  "spec_split_api_filepath p =
     (case rsplit_sep p of
        None \<Rightarrow> (spec_from_api_dirname ''/'', p)
      | Some (d, n) \<Rightarrow> (spec_from_api_dirname (d @ ''/''), n))"

definition spec_codec :: path_codec where
  "spec_codec = \<lparr> from_api_dirname = spec_from_api_dirname,
                   from_api_filename = spec_from_api_filename,
                   split_api_filepath = spec_split_api_filepath \<rparr>"

subsection \<open>The backing store\<close>

text \<open>
  Modelled from the spec: the relational engine beneath the module. Section 6 makes
  \<open>users.id\<close> unique and \<open>(user_id, name)\<close> unique on directories; section 3 makes the
  parent of a directory and the parent of a file foreign keys into directories, and a
  pointer checkpoint a reference to one file version. A statement that violates a
  constraint raises \<open>IntegrityError\<close> with the code of the constraint kind and changes
  nothing.
\<close>

definition insert_user :: "string \<Rightarrow> db \<Rightarrow> (db_error + unit) \<times> db" where
  "insert_user uid d =
     (if uid \<in> set (users d) then (Inl (IntegrityError UNIQUE_VIOLATION), d)
      else (Inr (), d\<lparr>users := users d @ [uid]\<rparr>))"

definition directory_present :: "db \<Rightarrow> string \<Rightarrow> string \<Rightarrow> bool" where
  "directory_present d uid n =
     (\<exists>r \<in> set (directories d). dir_user_id r = uid \<and> dir_name r = n)"

definition insert_directory :: "directory_row \<Rightarrow> db \<Rightarrow> (db_error + unit) \<times> db" where
  "insert_directory row d =
     (if directory_present d (dir_user_id row) (dir_name row)
      then (Inl (IntegrityError UNIQUE_VIOLATION), d)
      else (case (dir_parent_user_id row, dir_parent_name row) of
              (Some pu, Some pn) \<Rightarrow>
                if directory_present d pu pn
                then (Inr (), d\<lparr>directories := directories d @ [row]\<rparr>)
                else (Inl (IntegrityError FOREIGN_KEY_VIOLATION), d)
            | _ \<Rightarrow> (Inr (), d\<lparr>directories := directories d @ [row]\<rparr>)))"

definition directory_matches :: "string \<Rightarrow> string \<Rightarrow> directory_row \<Rightarrow> bool" where
  "directory_matches uid n r = (dir_user_id r = uid \<and> dir_name r = n)"

definition directory_referenced :: "db \<Rightarrow> string \<Rightarrow> string \<Rightarrow> bool" where
  "directory_referenced d uid n =
     ((\<exists>r \<in> set (directories d). \<not> directory_matches uid n r
          \<and> dir_parent_user_id r = Some uid \<and> dir_parent_name r = Some n)
      \<or> (\<exists>f \<in> set (files d). file_user_id f = uid \<and> file_parent_name f = n))"

definition pg_delete_directories :: "string \<Rightarrow> string \<Rightarrow> db \<Rightarrow> (db_error + nat) \<times> db" where
  "pg_delete_directories uid n d =
     (let hit = filter (directory_matches uid n) (directories d) in
      if hit \<noteq> [] \<and> directory_referenced d uid n
      then (Inl (IntegrityError FOREIGN_KEY_VIOLATION), d)
      else (Inr (length hit),
            d\<lparr>directories := filter (\<lambda>r. \<not> directory_matches uid n r) (directories d)\<rparr>))"

definition insert_file ::
  "string \<Rightarrow> string \<Rightarrow> string \<Rightarrow> string \<Rightarrow> int \<Rightarrow> db \<Rightarrow> (db_error + int) \<times> db" where
  "insert_file n uid parent body now d =
     (if directory_present d uid parent
      then (Inr (files_id_seq d),
            d\<lparr>files := files d @
                 [\<lparr>file_id = files_id_seq d, file_name = n, file_user_id = uid,
                   file_parent_name = parent, file_content = body,
                   file_created_at = now\<rparr>],
               files_id_seq := files_id_seq d + 1\<rparr>)
      else (Inl (IntegrityError FOREIGN_KEY_VIOLATION), d))"

definition insert_checkpoint ::
  "int option \<Rightarrow> int \<Rightarrow> db \<Rightarrow> (db_error + (int \<times> int) list) \<times> db" where
  "insert_checkpoint fid now d =
     (case fid of
        None \<Rightarrow> (Inl (IntegrityError NOT_NULL_VIOLATION), d)
      | Some i \<Rightarrow>
          if i \<in> file_id ` set (files d)
          then (Inr [(checkpoints_id_seq d, now)],
                d\<lparr>checkpoints := checkpoints d @
                     [\<lparr>cp_id = checkpoints_id_seq d, cp_file_id = i, cp_created_at = now\<rparr>],
                   checkpoints_id_seq := checkpoints_id_seq d + 1\<rparr>)
          else (Inl (IntegrityError FOREIGN_KEY_VIOLATION), d))"

text \<open>
  \<open>ORDER BY\<close> is a stable sort on the tuple of the ordering columns (a descending
  column enters negated), \<open>DISTINCT ON\<close> keeps the first row of each set of rows that
  agree on the given columns, \<open>LIMIT\<close> is \<open>take\<close>, and \<open>first()\<close> reads the first row
  if there is one.
\<close>

fun distinct_on :: "('a \<Rightarrow> 'k) \<Rightarrow> 'k list \<Rightarrow> 'a list \<Rightarrow> 'a list" where
  "distinct_on k seen [] = []"
| "distinct_on k seen (x # xs) =
     (if k x \<in> set seen then distinct_on k seen xs
      else x # distinct_on k (k x # seen) xs)"

definition first :: "'a list \<Rightarrow> 'a option" where
  "first rows = (case rows of [] \<Rightarrow> None | r # _ \<Rightarrow> Some r)"

subsection \<open>Users\<close>

text \<open>
  Modelled from the spec: \<open>ignore_unique_violation\<close> (pgcontents/db_utils.py) is
  absent. Section 4.6: a uniqueness violation on an "ensure" operation is swallowed and
  treated as success; any other constraint violation propagates unmodified. The value
  of the guarded block is dropped, as a \<open>with\<close> statement drops it.
\<close>

definition ignore_unique_violation :: "(error + 'a) \<times> db \<Rightarrow> (error + unit) \<times> db" where
  "ignore_unique_violation r =
     (case r of
        (Inl (DBError (IntegrityError pgcode)), d) \<Rightarrow>
          if pgcode = UNIQUE_VIOLATION then (Inr (), d)
          else (Inl (DBError (IntegrityError pgcode)), d)
      | (Inl e, d) \<Rightarrow> (Inl e, d)
      | (Inr _, d) \<Rightarrow> (Inr (), d))"

text \<open>
  \<open>db_execute\<close> is \<open>db.execute\<close> on a statement of the store: a failure of the
  store propagates as the exception it is.
\<close>

definition db_execute :: "(db_error + 'a) \<times> db \<Rightarrow> (error + 'a) \<times> db" where
  "db_execute r = (case r of (Inl e, d) \<Rightarrow> (Inl (DBError e), d) | (Inr v, d) \<Rightarrow> (Inr v, d))"

definition ensure_db_user :: "db \<Rightarrow> string \<Rightarrow> (error + unit) \<times> db" where
  "ensure_db_user d user_id = ignore_unique_violation (db_execute (insert_user user_id d))"

subsection \<open>Directories\<close>

text \<open>
  \<open>rindex c s\<close> is Python's \<open>s.rindex(c)\<close>: the last position of \<open>c\<close>, and
  \<open>None\<close> where Python raises \<open>ValueError\<close>. The source searches
  \<open>name[0:-1]\<close>, which is \<open>butlast name\<close>.
\<close>

definition rindex :: "'a \<Rightarrow> 'a list \<Rightarrow> nat option" where
  "rindex c s = first (filter (\<lambda>i. s ! i = c) (rev [0..<length s]))"

definition create_directory :: "path_codec \<Rightarrow> db \<Rightarrow> string \<Rightarrow> string \<Rightarrow> (error + unit) \<times> db" where
  "create_directory pc d user_id api_path =
     (let name = from_api_dirname pc api_path in
      if name = ''/''
      then db_execute (insert_directory
             \<lparr>dir_user_id = user_id, dir_name = name,
              dir_parent_user_id = None, dir_parent_name = None\<rparr> d)
      else (case rindex CHR ''/'' (butlast name) of
              None \<Rightarrow> (Inl (ValueError [''substring not found'']), d)
            | Some i \<Rightarrow>
                db_execute (insert_directory
                  \<lparr>dir_user_id = user_id, dir_name = name,
                   dir_parent_user_id = Some user_id,
                   dir_parent_name = Some (take (i + 1) name)\<rparr> d)))"

text \<open>
  An encoded directory name on which \<open>create_directory\<close> finds the parent: the root,
  or a name with a separator before its last character.
\<close>

definition encoded_dirname :: "string \<Rightarrow> bool" where
  "encoded_dirname name = (name = ''/'' \<or> CHR ''/'' \<in> set (butlast name))"

definition ensure_directory :: "path_codec \<Rightarrow> db \<Rightarrow> string \<Rightarrow> string \<Rightarrow> (error + unit) \<times> db" where
  "ensure_directory pc d user_id api_path =
     ignore_unique_violation (create_directory pc d user_id api_path)"

text \<open>
  \<open>delete_directory\<close> takes the backing store's execution of its \<open>DELETE\<close>
  statement as the parameter \<open>execute\<close>, so that every outcome the store may report
  (any \<open>pgcode\<close>, any row count) is an input of the model;
  \<open>pg_delete_directories\<close> is the store of this development.
\<close>

definition delete_directory ::
  "(string \<Rightarrow> string \<Rightarrow> db \<Rightarrow> (db_error + nat) \<times> db) \<Rightarrow> path_codec \<Rightarrow> db \<Rightarrow> string \<Rightarrow> string
     \<Rightarrow> (error + nat) \<times> db" where
  "delete_directory execute pc d user_id api_path =
     (let db_dirname = from_api_dirname pc api_path in
      case execute user_id db_dirname d of
        (Inl (IntegrityError pgcode), d') \<Rightarrow>
          if pgcode \<noteq> FOREIGN_KEY_VIOLATION then (Inl (DBError (IntegrityError pgcode)), d')
          else (Inl (DirectoryNotEmpty [api_path]), d')
      | (Inr rowcount, d') \<Rightarrow>
          if rowcount = 0 then (Inl (NoSuchDirectory [api_path]), d')
          else (Inr rowcount, d'))"

definition is_in_directory :: "string \<Rightarrow> string \<Rightarrow> file_row \<Rightarrow> bool" where
  "is_in_directory user_id db_dirname r =
     (file_parent_name r = db_dirname \<and> file_user_id r = user_id)"

subsection \<open>Files\<close>

text \<open>
  Modelled from the spec: \<open>to_dict\<close> (pgcontents/db_utils.py) is absent; an operation
  returns a plain record. For a file row it is the record of the queried fields: the
  default fields (\<open>name\<close>, \<open>created_at\<close>, \<open>parent_name\<close>) and the content when it
  was asked for.
\<close>

record file_model =
  model_name :: string
  model_created_at :: int
  model_parent_name :: string
  model_content :: "string option"

definition file_to_dict :: "bool \<Rightarrow> file_row \<Rightarrow> file_model" where
  "file_to_dict include_content r =
     \<lparr>model_name = file_name r, model_created_at = file_created_at r,
      model_parent_name = file_parent_name r,
      model_content = (if include_content then Some (file_content r) else None)\<rparr>"

definition files_in_directory :: "db \<Rightarrow> string \<Rightarrow> string \<Rightarrow> file_model list" where
  "files_in_directory d user_id db_dirname =
     map (file_to_dict False)
       (distinct_on (\<lambda>r. (file_user_id r, file_parent_name r, file_name r)) []
          (sort_key (\<lambda>r. (file_user_id r, file_parent_name r, file_name r, file_created_at r))
             (filter (is_in_directory user_id db_dirname) (files d))))"

definition file_where :: "path_codec \<Rightarrow> string \<Rightarrow> string \<Rightarrow> file_row \<Rightarrow> bool" where
  "file_where pc user_id api_path r =
     (case split_api_filepath pc api_path of
        (directory, name) \<Rightarrow>
          file_name r = name \<and> file_user_id r = user_id \<and> file_parent_name r = directory)"

definition select_file :: "path_codec \<Rightarrow> db \<Rightarrow> string \<Rightarrow> string \<Rightarrow> nat option \<Rightarrow> file_row list" where
  "select_file pc d user_id api_path limit =
     (let query = sort_key (\<lambda>r. - file_created_at r)
                    (filter (file_where pc user_id api_path) (files d))
      in case limit of None \<Rightarrow> query | Some n \<Rightarrow> take n query)"

definition get_file :: "path_codec \<Rightarrow> db \<Rightarrow> string \<Rightarrow> string \<Rightarrow> bool \<Rightarrow> error + file_model" where
  "get_file pc d user_id api_path include_content =
     (case first (select_file pc d user_id api_path (Some 1)) of
        None \<Rightarrow> Inl (NoSuchFile [api_path])
      | Some result \<Rightarrow> Inr (file_to_dict include_content result))"

definition file_exists :: "path_codec \<Rightarrow> db \<Rightarrow> string \<Rightarrow> string \<Rightarrow> error + bool" where
  "file_exists pc d user_id path =
     (case get_file pc d user_id path False of
        Inr _ \<Rightarrow> Inr True
      | Inl (NoSuchFile _) \<Rightarrow> Inr False
      | Inl e \<Rightarrow> Inl e)"

definition rename_file :: "path_codec \<Rightarrow> db \<Rightarrow> string \<Rightarrow> string \<Rightarrow> string \<Rightarrow> (error + unit) \<times> db" where
  "rename_file pc d user_id old_api_path new_api_path =
     (case split_api_filepath pc old_api_path of
        (old_dir, old_name) \<Rightarrow>
     (case split_api_filepath pc new_api_path of
        (new_dir, new_name) \<Rightarrow>
          if old_dir \<noteq> new_dir then (Inl (ValueError [old_api_path, new_api_path]), d)
          else (case file_exists pc d user_id new_api_path of
                  Inl e \<Rightarrow> (Inl e, d)
                | Inr True \<Rightarrow> (Inl (FileExists [new_api_path]), d)
                | Inr False \<Rightarrow>
                    (Inr (),
                     d\<lparr>files :=
                         map (\<lambda>r. if file_user_id r = user_id \<and> file_parent_name r = new_dir
                                  then r\<lparr>file_name := new_name\<rparr> else r)
                           (files d)\<rparr>))))"

definition check_content :: "int \<Rightarrow> string \<Rightarrow> int \<Rightarrow> error + unit" where
  "check_content UNLIMITED content max_size_bytes =
     (if max_size_bytes \<noteq> UNLIMITED \<and> int (length content) > max_size_bytes
      then Inl FileTooLarge else Inr ())"

definition save_file ::
  "path_codec \<Rightarrow> int \<Rightarrow> int \<Rightarrow> db \<Rightarrow> string \<Rightarrow> string \<Rightarrow> string \<Rightarrow> int \<Rightarrow> (error + int) \<times> db" where
  "save_file pc UNLIMITED now d user_id path content max_size_bytes =
     (case check_content UNLIMITED content max_size_bytes of
        Inl e \<Rightarrow> (Inl e, d)
      | Inr _ \<Rightarrow>
          (case split_api_filepath pc path of
             (directory, name) \<Rightarrow>
               db_execute (insert_file name user_id directory content now d)))"

subsection \<open>Checkpoints\<close>

text \<open>
  \<open>create_checkpoint\<close> inserts one row whose \<open>file_id\<close> is the scalar subquery
  "the id of the latest version": the first row of \<open>select_file\<close> with limit 1, and
  NULL when the subquery has no row.
\<close>

definition create_checkpoint ::
  "path_codec \<Rightarrow> int \<Rightarrow> db \<Rightarrow> string \<Rightarrow> string \<Rightarrow> (error + int \<times> int) \<times> db" where
  "create_checkpoint pc now d user_id api_path =
     (let latest_version = map_option file_id (first (select_file pc d user_id api_path (Some 1)))
      in case db_execute (insert_checkpoint latest_version now d) of
           (Inl e, d') \<Rightarrow> (Inl e, d')
         | (Inr results, d') \<Rightarrow>
             (case results of
                [] \<Rightarrow> (Inl (NoSuchFile [api_path]), d')
              | [r] \<Rightarrow> (Inr r, d')
              | _ \<Rightarrow> (Inl AssertionError, d')))"

definition restore_match :: "path_codec \<Rightarrow> db \<Rightarrow> string \<Rightarrow> string \<Rightarrow> int \<Rightarrow> file_row \<Rightarrow> bool" where
  "restore_match pc d user_id api_path checkpoint_id r =
     ((\<exists>c \<in> set (checkpoints d). cp_id c = checkpoint_id \<and> file_id r = cp_file_id c)
      \<and> file_where pc user_id api_path r)"

definition restore_checkpoint ::
  "path_codec \<Rightarrow> int \<Rightarrow> db \<Rightarrow> string \<Rightarrow> string \<Rightarrow> int \<Rightarrow> (error + unit) \<times> db" where
  "restore_checkpoint pc now d user_id api_path checkpoint_id =
     (let rowcount = length (filter (restore_match pc d user_id api_path checkpoint_id) (files d));
          d' = d\<lparr>files :=
                   map (\<lambda>r. if restore_match pc d user_id api_path checkpoint_id r
                            then r\<lparr>file_created_at := now\<rparr> else r)
                     (files d)\<rparr>
      in if rowcount = 0 then (Inl (NoSuchFile []), d') else (Inr (), d'))"

subsection \<open>Remote checkpoints\<close>

text \<open>
  \<open>py_int\<close> is Python's \<open>int\<close> on a string of decimal digits with an optional sign
  and surrounding whitespace; \<open>None\<close> is \<open>ValueError\<close>. Digit-group underscores,
  which only later Python versions accept, are not read.
\<close>

definition is_space :: "char \<Rightarrow> bool" where
  "is_space c = (c \<in> set [CHR '' '', CHR 0x09, CHR 0x0A, CHR 0x0B, CHR 0x0C, CHR 0x0D])"

definition digit_val :: "char \<Rightarrow> int option" where
  "digit_val c =
     (if CHR ''0'' \<le> c \<and> c \<le> CHR ''9'' then Some (int (of_char c) - 48) else None)"

fun digits_val :: "int \<Rightarrow> string \<Rightarrow> int option" where
  "digits_val acc [] = Some acc"
| "digits_val acc (c # cs) =
     (case digit_val c of None \<Rightarrow> None | Some v \<Rightarrow> digits_val (10 * acc + v) cs)"

definition py_int :: "string \<Rightarrow> int option" where
  "py_int s =
     (let t = rev (dropWhile is_space (rev (dropWhile is_space s))) in
      case t of
        [] \<Rightarrow> None
      | c # cs \<Rightarrow>
          if c = CHR ''-'' then (if cs = [] then None else map_option uminus (digits_val 0 cs))
          else if c = CHR ''+'' then (if cs = [] then None else digits_val 0 cs)
          else digits_val 0 t)"

definition delete_single_remote_checkpoint ::
  "path_codec \<Rightarrow> db \<Rightarrow> string \<Rightarrow> string \<Rightarrow> string \<Rightarrow> (error + unit) \<times> db" where
  "delete_single_remote_checkpoint pc d user_id api_path checkpoint_id =
     (let db_path = from_api_filename pc api_path in
      case py_int checkpoint_id of
        None \<Rightarrow> (Inl (ValueError [checkpoint_id]), d)
      | Some cid \<Rightarrow>
          (let hit = (\<lambda>r. rc_user_id r = user_id \<and> rc_path r = db_path \<and> rc_id r = cid);
               rowcount = length (filter hit (remote_checkpoints d));
               d' = d\<lparr>remote_checkpoints := filter (\<lambda>r. \<not> hit r) (remote_checkpoints d)\<rparr>
           in if rowcount = 0 then (Inl (NoSuchCheckpoint [api_path, checkpoint_id]), d')
              else (Inr (), d')))"

definition delete_remote_checkpoints ::
  "path_codec \<Rightarrow> db \<Rightarrow> string \<Rightarrow> string \<Rightarrow> (error + unit) \<times> db" where
  "delete_remote_checkpoints pc d user_id api_path =
     (let db_path = from_api_filename pc api_path in
      (Inr (),
       d\<lparr>remote_checkpoints :=
           filter (\<lambda>r. \<not> (rc_user_id r = user_id \<and> rc_path r = db_path))
             (remote_checkpoints d)\<rparr>))"

definition move_single_remote_checkpoint ::
  "path_codec \<Rightarrow> db \<Rightarrow> string \<Rightarrow> string \<Rightarrow> string \<Rightarrow> string \<Rightarrow> (error + unit) \<times> db" where
  "move_single_remote_checkpoint pc d user_id src_api_path dest_api_path checkpoint_id =
     (let src_db_path = from_api_filename pc src_api_path;
          dest_db_path = from_api_filename pc dest_api_path in
      case py_int checkpoint_id of
        None \<Rightarrow> (Inl (ValueError [checkpoint_id]), d)
      | Some cid \<Rightarrow>
          (let hit = (\<lambda>r. rc_user_id r = user_id \<and> rc_path r = src_db_path \<and> rc_id r = cid);
               rowcount = length (filter hit (remote_checkpoints d));
               d' = d\<lparr>remote_checkpoints :=
                        map (\<lambda>r. if hit r then r\<lparr>rc_path := dest_db_path\<rparr> else r)
                          (remote_checkpoints d)\<rparr>
           in if rowcount = 0 then (Inl (NoSuchCheckpoint [src_api_path, checkpoint_id]), d')
              else (Inr (), d')))"

definition move_remote_checkpoints ::
  "path_codec \<Rightarrow> db \<Rightarrow> string \<Rightarrow> string \<Rightarrow> string \<Rightarrow> (error + unit) \<times> db" where
  "move_remote_checkpoints pc d user_id src_api_path dest_api_path =
     (let src_db_path = from_api_filename pc src_api_path;
          dest_db_path = from_api_filename pc dest_api_path in
      (Inr (),
       d\<lparr>remote_checkpoints :=
           map (\<lambda>r. if rc_user_id r = user_id \<and> rc_path r = src_db_path
                    then r\<lparr>rc_path := dest_db_path\<rparr> else r)
             (remote_checkpoints d)\<rparr>))"

definition purge_remote_checkpoints :: "db \<Rightarrow> string \<Rightarrow> (error + unit) \<times> db" where
  "purge_remote_checkpoints d user_id =
     (Inr (),
      d\<lparr>remote_checkpoints := filter (\<lambda>r. \<not> rc_user_id r = user_id) (remote_checkpoints d)\<rparr>)"

definition latest_remote_checkpoints :: "db \<Rightarrow> string \<Rightarrow> (int \<times> string) list" where
  "latest_remote_checkpoints d user_id =
     map (\<lambda>r. (rc_id r, rc_path r))
       (distinct_on rc_path []
          (sort_key (\<lambda>r. (rc_path r, - rc_last_modified r))
             (filter (\<lambda>r. rc_user_id r = user_id) (remote_checkpoints d))))"

subsection \<open>A caller saving a file repeatedly\<close>

text \<open>
  \<open>save_files\<close> is a caller that saves the contents of a list to one path, one
  \<open>save_file\<close> call after the other, each at its own time and with no size limit;
  it stops at the first call that raises.
\<close>

fun save_files ::
  "path_codec \<Rightarrow> int \<Rightarrow> db \<Rightarrow> string \<Rightarrow> string \<Rightarrow> (int \<times> string) list \<Rightarrow> (error + unit) \<times> db" where
  "save_files pc UNLIMITED d user_id path [] = (Inr (), d)"
| "save_files pc UNLIMITED d user_id path ((now, content) # rest) =
     (case save_file pc UNLIMITED now d user_id path content UNLIMITED of
        (Inl e, d') \<Rightarrow> (Inl e, d')
      | (Inr _, d') \<Rightarrow> save_files pc UNLIMITED d' user_id path rest)"

subsection \<open>A sample database\<close>

text \<open>
  One tenant \<open>u\<close> with the root directory and \<open>/docs/\<close>; two versions of
  \<open>a.txt\<close> and one of \<open>b.txt\<close> in the root; a pointer checkpoint on the first
  version of \<open>a.txt\<close>; three snapshot checkpoints.
\<close>

definition sample_db :: db where
  "sample_db =
     \<lparr>users = [''u''],
      directories =
        [\<lparr>dir_user_id = ''u'', dir_name = ''/'', dir_parent_user_id = None,
          dir_parent_name = None\<rparr>,
         \<lparr>dir_user_id = ''u'', dir_name = ''/docs/'', dir_parent_user_id = Some ''u'',
          dir_parent_name = Some ''/''\<rparr>],
      files =
        [\<lparr>file_id = 1, file_name = ''a.txt'', file_user_id = ''u'', file_parent_name = ''/'',
          file_content = ''v1'', file_created_at = 5\<rparr>,
         \<lparr>file_id = 2, file_name = ''a.txt'', file_user_id = ''u'', file_parent_name = ''/'',
          file_content = ''v2'', file_created_at = 10\<rparr>,
         \<lparr>file_id = 3, file_name = ''b.txt'', file_user_id = ''u'', file_parent_name = ''/'',
          file_content = ''w1'', file_created_at = 7\<rparr>],
      checkpoints = [\<lparr>cp_id = 1, cp_file_id = 1, cp_created_at = 6\<rparr>],
      remote_checkpoints =
        [\<lparr>rc_id = 1, rc_user_id = ''u'', rc_path = ''/a.txt'', rc_content = ''s1'',
          rc_last_modified = 3\<rparr>,
         \<lparr>rc_id = 2, rc_user_id = ''u'', rc_path = ''/a.txt'', rc_content = ''s2'',
          rc_last_modified = 9\<rparr>,
         \<lparr>rc_id = 3, rc_user_id = ''u'', rc_path = ''/b.txt'', rc_content = ''t1'',
          rc_last_modified = 4\<rparr>],
      files_id_seq = 4, checkpoints_id_seq = 2, remote_checkpoints_id_seq = 4\<rparr>"

subsection \<open>The versions of a file\<close>

text \<open>
  The version rows of a path are the file rows whose tenant, parent directory and name
  are those of the path; the versions a checkpoint id stands for are those among them
  that a checkpoint row with this id references. Both are written from the data model,
  independently of the \<open>WHERE\<close> clauses of the queries.
\<close>

definition versions_of :: "path_codec \<Rightarrow> db \<Rightarrow> string \<Rightarrow> string \<Rightarrow> file_row list" where
  "versions_of pc d user_id path =
     filter (\<lambda>r. file_user_id r = user_id
                \<and> file_parent_name r = fst (split_api_filepath pc path)
                \<and> file_name r = snd (split_api_filepath pc path))
       (files d)"

definition checkpointed_versions ::
  "path_codec \<Rightarrow> db \<Rightarrow> string \<Rightarrow> string \<Rightarrow> int \<Rightarrow> file_row list" where
  "checkpointed_versions pc d user_id path checkpoint_id =
     filter (\<lambda>r. \<exists>c \<in> set (checkpoints d). cp_id c = checkpoint_id \<and> cp_file_id c = file_id r)
       (versions_of pc d user_id path)"

subsection \<open>A database with two tenants\<close>

text \<open>
  Tenant \<open>u\<close> has two versions of \<open>a.txt\<close> in the root, created at 5 and 10, a file
  \<open>a.txt\<close> in \<open>/docs/\<close> and a file \<open>b.txt\<close> in the root; tenant \<open>v\<close> has a file
  \<open>a.txt\<close> in its own root. The rows outside the key of \<open>u\<close>'s \<open>a.txt\<close> are the
  most recent ones. Each of four pointer checkpoints references one of the versions.
\<close>

definition tenants_db :: db where
  "tenants_db =
     \<lparr>users = [''u'', ''v''],
      directories =
        [\<lparr>dir_user_id = ''u'', dir_name = ''/'', dir_parent_user_id = None,
          dir_parent_name = None\<rparr>,
         \<lparr>dir_user_id = ''u'', dir_name = ''/docs/'', dir_parent_user_id = Some ''u'',
          dir_parent_name = Some ''/''\<rparr>,
         \<lparr>dir_user_id = ''v'', dir_name = ''/'', dir_parent_user_id = None,
          dir_parent_name = None\<rparr>],
      files =
        [\<lparr>file_id = 1, file_name = ''a.txt'', file_user_id = ''u'', file_parent_name = ''/'',
          file_content = ''v1'', file_created_at = 5\<rparr>,
         \<lparr>file_id = 2, file_name = ''a.txt'', file_user_id = ''u'', file_parent_name = ''/'',
          file_content = ''v2'', file_created_at = 10\<rparr>,
         \<lparr>file_id = 3, file_name = ''a.txt'', file_user_id = ''v'', file_parent_name = ''/'',
          file_content = ''x1'', file_created_at = 99\<rparr>,
         \<lparr>file_id = 4, file_name = ''a.txt'', file_user_id = ''u'',
          file_parent_name = ''/docs/'', file_content = ''d1'', file_created_at = 77\<rparr>,
         \<lparr>file_id = 5, file_name = ''b.txt'', file_user_id = ''u'', file_parent_name = ''/'',
          file_content = ''w1'', file_created_at = 88\<rparr>],
      checkpoints =
        [\<lparr>cp_id = 1, cp_file_id = 1, cp_created_at = 6\<rparr>,
         \<lparr>cp_id = 2, cp_file_id = 2, cp_created_at = 11\<rparr>,
         \<lparr>cp_id = 3, cp_file_id = 3, cp_created_at = 100\<rparr>,
         \<lparr>cp_id = 4, cp_file_id = 5, cp_created_at = 90\<rparr>],
      remote_checkpoints = [],
      files_id_seq = 6, checkpoints_id_seq = 5, remote_checkpoints_id_seq = 1\<rparr>"

section \<open>Properties\<close>

subsection \<open>Auxiliary facts\<close>

lemma filter_none_keeps: "filter P xs = [] \<Longrightarrow> filter (\<lambda>x. \<not> P x) xs = xs"
  by (induction xs) (auto split: if_splits)

lemma map_none_keeps: "filter P xs = [] \<Longrightarrow> map (\<lambda>x. if P x then f x else x) xs = xs"
  by (induction xs) (auto split: if_splits)

lemma check_content_raises:
  "check_content UNLIMITED content max_size_bytes = Inl e \<longleftrightarrow>
     e = FileTooLarge \<and> max_size_bytes \<noteq> UNLIMITED \<and> int (length content) > max_size_bytes"
  by (auto simp: check_content_def)

lemma insert_file_cases:
  "insert_file n uid parent body now d = (Inl e, d') \<Longrightarrow> d' = d"
  "insert_file n uid parent body now d = (Inr i, d') \<Longrightarrow>
     i = files_id_seq d \<and>
     d' = d\<lparr>files := files d @
               [\<lparr>file_id = files_id_seq d, file_name = n, file_user_id = uid,
                 file_parent_name = parent, file_content = body, file_created_at = now\<rparr>],
             files_id_seq := files_id_seq d + 1\<rparr>"
  by (auto simp: insert_file_def split: if_splits)

lemma sort_key_head_least:
  assumes "sort_key f xs = y # ys"
  shows "y \<in> set xs \<and> (\<forall>x \<in> set xs. f y \<le> f x)"
proof -
  have s: "sorted (map f (y # ys))" using sorted_sort_key [of f xs] assms by simp
  have m: "set (y # ys) = set xs" using set_sort [of f xs] assms by simp
  from s have "\<forall>x \<in> set (y # ys). f y \<le> f x" by auto
  with m show ?thesis by auto
qed

lemma first_take_one: "first (take (Suc 0) xs) = first xs"
  by (cases xs) (simp_all add: first_def)

lemma first_sort_key_none: "first (sort_key f xs) = None \<longleftrightarrow> xs = []"
proof -
  have "sort_key f xs = [] \<longleftrightarrow> xs = []"
    using length_sort [of f xs] by (metis length_0_conv)
  then show ?thesis by (auto simp: first_def split: list.splits)
qed

lemma first_sort_key_some:
  "first (sort_key f xs) = Some y \<Longrightarrow> y \<in> set xs \<and> (\<forall>x \<in> set xs. f y \<le> f x)"
  using sort_key_head_least [of f xs y] by (auto simp: first_def split: list.splits)

lemma select_file_one:
  "first (select_file pc d user_id api_path (Some 1))
     = first (sort_key (\<lambda>r. - file_created_at r) (filter (file_where pc user_id api_path) (files d)))"
  unfolding select_file_def Let_def by (simp add: first_take_one)

lemma get_file_none:
  "filter (file_where pc user_id api_path) (files d) = []
     \<Longrightarrow> get_file pc d user_id api_path include_content = Inl (NoSuchFile [api_path])"
  unfolding get_file_def select_file_one by (simp add: first_def)

lemma get_file_some:
  assumes "filter (file_where pc user_id api_path) (files d) \<noteq> []"
  shows "\<exists>r \<in> set (filter (file_where pc user_id api_path) (files d)).
           get_file pc d user_id api_path include_content = Inr (file_to_dict include_content r)
           \<and> (\<forall>r' \<in> set (filter (file_where pc user_id api_path) (files d)).
                 file_created_at r' \<le> file_created_at r)"
proof -
  let ?vs = "filter (file_where pc user_id api_path) (files d)"
  let ?f = "\<lambda>r. - file_created_at r"
  from assms obtain y where y: "first (sort_key ?f ?vs) = Some y"
    using first_sort_key_none [of ?f ?vs] by (cases "first (sort_key ?f ?vs)") auto
  from first_sort_key_some [OF y]
  have "y \<in> set ?vs" and "\<forall>x \<in> set ?vs. file_created_at x \<le> file_created_at y" by auto
  moreover have "get_file pc d user_id api_path include_content = Inr (file_to_dict include_content y)"
    unfolding get_file_def select_file_one using y by simp
  ultimately show ?thesis by blast
qed

lemma file_exists_iff:
  "file_exists pc d user_id path = Inr (filter (file_where pc user_id path) (files d) \<noteq> [])"
proof (cases "filter (file_where pc user_id path) (files d) = []")
  case True
  then show ?thesis by (simp add: file_exists_def get_file_none)
next
  case False
  from get_file_some [OF False, of False] show ?thesis
    using False by (auto simp: file_exists_def)
qed

lemma get_file_raises_iff:
  "(\<exists>args. get_file pc d user_id path include_content = Inl (NoSuchFile args))
     \<longleftrightarrow> filter (file_where pc user_id path) (files d) = []"
proof (cases "filter (file_where pc user_id path) (files d) = []")
  case True
  then show ?thesis by (simp add: get_file_none)
next
  case False
  from get_file_some [OF False, of include_content] show ?thesis
    using False by auto
qed

lemma save_file_then_get:
  assumes ok: "save_file pc UNLIMITED now d user_id path content m = (Inr i, d')"
    and later: "\<forall>r \<in> set (filter (file_where pc user_id path) (files d)). file_created_at r < now"
  shows "get_file pc d' user_id path True
           = Inr \<lparr>model_name = snd (split_api_filepath pc path), model_created_at = now,
                  model_parent_name = fst (split_api_filepath pc path),
                  model_content = Some content\<rparr>
         \<and> (\<forall>r \<in> set (filter (file_where pc user_id path) (files d')). file_created_at r \<le> now)"
proof -
  obtain directory name where sp: "split_api_filepath pc path = (directory, name)"
    by (cases "split_api_filepath pc path")
  let ?row = "\<lparr>file_id = files_id_seq d, file_name = name, file_user_id = user_id,
                 file_parent_name = directory, file_content = content, file_created_at = now\<rparr>"
  from ok have fs: "files d' = files d @ [?row]"
    by (auto simp: save_file_def sp db_execute_def insert_file_def
          split: sum.splits if_splits)
  have w: "file_where pc user_id path ?row" by (simp add: file_where_def sp)
  let ?vs = "filter (file_where pc user_id path) (files d)"
  have vs': "filter (file_where pc user_id path) (files d') = ?vs @ [?row]"
    using fs w by simp
  then have ne: "filter (file_where pc user_id path) (files d') \<noteq> []" by simp
  from get_file_some [OF ne, of True] obtain r where
    r: "r \<in> set (?vs @ [?row])"
    and g: "get_file pc d' user_id path True = Inr (file_to_dict True r)"
    and mx: "\<forall>r' \<in> set (?vs @ [?row]). file_created_at r' \<le> file_created_at r"
    unfolding vs' by blast
  from mx have "now \<le> file_created_at r" by simp
  with later r have "r = ?row" by auto
  with g have "get_file pc d' user_id path True = Inr (file_to_dict True ?row)" by simp
  moreover have "\<forall>r \<in> set (?vs @ [?row]). file_created_at r \<le> now"
    using later by auto
  ultimately show ?thesis by (simp add: vs' file_to_dict_def sp)
qed

lemma save_files_then_get:
  "saves \<noteq> [] \<Longrightarrow> sorted_wrt (<) (map fst saves) \<Longrightarrow>
   \<forall>r \<in> set (filter (file_where pc user_id path) (files d)). file_created_at r < fst (hd saves) \<Longrightarrow>
   save_files pc UNLIMITED d user_id path saves = (Inr (), d') \<Longrightarrow>
   get_file pc d' user_id path True
     = Inr \<lparr>model_name = snd (split_api_filepath pc path), model_created_at = fst (last saves),
            model_parent_name = fst (split_api_filepath pc path),
            model_content = Some (snd (last saves))\<rparr>"
proof (induction saves arbitrary: d)
  case Nil
  then show ?case by simp
next
  case (Cons s rest)
  obtain now content where s: "s = (now, content)" by (cases s)
  from Cons.prems(4) obtain i d1 where
    sv: "save_file pc UNLIMITED now d user_id path content UNLIMITED = (Inr i, d1)"
    and rs: "save_files pc UNLIMITED d1 user_id path rest = (Inr (), d')"
    by (auto simp: s split: prod.splits sum.splits)
  from Cons.prems(3) have lt: "\<forall>r \<in> set (filter (file_where pc user_id path) (files d)). file_created_at r < now"
    by (simp add: s)
  note step = save_file_then_get [OF sv lt]
  show ?case
  proof (cases rest)
    case Nil
    with rs have "d' = d1" by simp
    with step Nil s show ?thesis by simp
  next
    case (Cons s2 rest2)
    from Cons.prems(2) Cons have "now < fst (hd rest)" by (auto simp: s)
    with step have b: "\<forall>r \<in> set (filter (file_where pc user_id path) (files d1)). file_created_at r < fst (hd rest)"
      by fastforce
    have ne: "rest \<noteq> []" using Cons by simp
    have so: "sorted_wrt (<) (map fst rest)" using Cons.prems(2) by simp
    from Cons.IH [OF ne so b rs] ne show ?thesis by simp
  qed
qed

lemma file_where_created_at [simp]:
  "file_where pc user_id path (r\<lparr>file_created_at := t\<rparr>) = file_where pc user_id path r"
  by (simp add: file_where_def split: prod.splits)

lemma in_set_not_nil: "x \<in> set xs \<Longrightarrow> xs \<noteq> []"
  by auto

lemma restore_checkpoint_no_match:
  assumes "filter (restore_match pc d user_id path checkpoint_id) (files d) = []"
  shows "restore_checkpoint pc now d user_id path checkpoint_id = (Inl (NoSuchFile []), d)"
  using assms map_none_keeps [OF assms, of "\<lambda>r. r\<lparr>file_created_at := now\<rparr>"]
  by (simp add: restore_checkpoint_def Let_def)

lemma restore_checkpoint_match:
  assumes "filter (restore_match pc d user_id path checkpoint_id) (files d) \<noteq> []"
  shows "restore_checkpoint pc now d user_id path checkpoint_id
           = (Inr (), d\<lparr>files :=
                 map (\<lambda>r. if restore_match pc d user_id path checkpoint_id r
                          then r\<lparr>file_created_at := now\<rparr> else r) (files d)\<rparr>)"
  using assms by (simp add: restore_checkpoint_def Let_def)

lemma restore_match_unique:
  assumes fid: "distinct (map file_id (files d))"
    and cid: "distinct (map cp_id (checkpoints d))"
    and c: "c \<in> set (checkpoints d)" "cp_id c = checkpoint_id"
    and r: "r \<in> set (files d)" "file_id r = cp_file_id c" "file_where pc user_id path r"
    and x: "x \<in> set (files d)"
  shows "restore_match pc d user_id path checkpoint_id x \<longleftrightarrow> x = r"
proof
  assume "restore_match pc d user_id path checkpoint_id x"
  then obtain c' where c': "c' \<in> set (checkpoints d)" "cp_id c' = checkpoint_id"
      "file_id x = cp_file_id c'"
    by (auto simp: restore_match_def)
  from cid have "inj_on cp_id (set (checkpoints d))" by (simp add: distinct_map)
  with c c'(1,2) have "c' = c" by (auto dest: inj_onD)
  with c'(3) r(2) have "file_id x = file_id r" by simp
  moreover from fid have "inj_on file_id (set (files d))" by (simp add: distinct_map)
  ultimately show "x = r" using x r(1) by (auto dest: inj_onD)
next
  assume "x = r"
  with c r show "restore_match pc d user_id path checkpoint_id x"
    by (auto simp: restore_match_def)
qed

lemma restore_checkpoint_then_get:
  assumes fid: "distinct (map file_id (files d))"
    and cid: "distinct (map cp_id (checkpoints d))"
    and c: "c \<in> set (checkpoints d)" "cp_id c = checkpoint_id"
    and r: "r \<in> set (files d)" "file_id r = cp_file_id c" "file_where pc user_id path r"
    and later: "\<forall>x \<in> set (filter (file_where pc user_id path) (files d)).
                  x \<noteq> r \<longrightarrow> file_created_at x < now"
  shows "get_file pc (snd (restore_checkpoint pc now d user_id path checkpoint_id)) user_id path True
           = Inr \<lparr>model_name = file_name r, model_created_at = now,
                  model_parent_name = file_parent_name r,
                  model_content = Some (file_content r)\<rparr>"
proof -
  let ?m = "restore_match pc d user_id path checkpoint_id"
  let ?g = "\<lambda>x. if ?m x then x\<lparr>file_created_at := now\<rparr> else x"
  let ?d' = "snd (restore_checkpoint pc now d user_id path checkpoint_id)"
  have uniq: "\<And>x. x \<in> set (files d) \<Longrightarrow> ?m x \<longleftrightarrow> x = r"
    using restore_match_unique [OF fid cid c r] by blast
  have fs: "files ?d' = map ?g (files d)"
    by (simp add: restore_checkpoint_def Let_def)
  let ?vs' = "filter (file_where pc user_id path) (files ?d')"
  have mem: "?g r \<in> set ?vs'"
    using r(1,3) by (auto simp: fs)
  have ne: "?vs' \<noteq> []" by (rule in_set_not_nil [OF mem])
  from get_file_some [OF ne, of True] obtain y where
    y: "y \<in> set ?vs'"
    and g: "get_file pc ?d' user_id path True = Inr (file_to_dict True y)"
    and mx: "\<forall>z \<in> set ?vs'. file_created_at z \<le> file_created_at y"
    by blast
  from y obtain x where x: "x \<in> set (files d)" "y = ?g x" "file_where pc user_id path x"
    by (auto simp: fs split: if_splits)
  have mr: "?m r" using uniq [OF r(1)] by simp
  have gr: "?g r = r\<lparr>file_created_at := now\<rparr>" using mr by simp
  have "x = r"
  proof (rule ccontr)
    assume n: "x \<noteq> r"
    with uniq [OF x(1)] have "?g x = x" by simp
    moreover from later x(1,3) n have "file_created_at x < now" by simp
    moreover from mx mem gr have "now \<le> file_created_at y" by fastforce
    ultimately show False using x(2) by simp
  qed
  with x(2) mr have "y = r\<lparr>file_created_at := now\<rparr>" by simp
  with g show ?thesis by (simp add: file_to_dict_def)
qed

lemma distinct_on_subset: "set (distinct_on k seen xs) \<subseteq> set xs"
  by (induction xs arbitrary: seen) auto

lemma distinct_on_keys: "k ` set (distinct_on k seen xs) = k ` set xs - set seen"
  by (induction xs arbitrary: seen) auto

lemma distinct_on_distinct: "distinct (map k (distinct_on k seen xs))"
  by (induction xs arbitrary: seen) (auto simp: distinct_on_keys)

lemma distinct_on_first:
  "x \<in> set (distinct_on k seen xs) \<Longrightarrow>
     \<exists>ys zs. xs = ys @ x # zs \<and> k x \<notin> k ` set ys \<and> k x \<notin> set seen"
proof (induction xs arbitrary: seen)
  case Nil
  then show ?case by simp
next
  case (Cons a xs)
  show ?case
  proof (cases "k a \<in> set seen")
    case True
    with Cons.prems have "x \<in> set (distinct_on k seen xs)" by simp
    from Cons.IH [OF this] obtain ys zs where
      "xs = ys @ x # zs" "k x \<notin> k ` set ys" "k x \<notin> set seen" by blast
    with True have "a # xs = (a # ys) @ x # zs \<and> k x \<notin> k ` set (a # ys) \<and> k x \<notin> set seen"
      by auto
    then show ?thesis by blast
  next
    case False
    show ?thesis
    proof (cases "x = a")
      case True
      with False have "a # xs = [] @ x # xs \<and> k x \<notin> k ` set [] \<and> k x \<notin> set seen" by simp
      then show ?thesis by blast
    next
      case ne: False
      with False Cons.prems have "x \<in> set (distinct_on k (k a # seen) xs)" by simp
      from Cons.IH [OF this] obtain ys zs where
        "xs = ys @ x # zs" "k x \<notin> k ` set ys" "k x \<notin> set (k a # seen)" by blast
      then have "a # xs = (a # ys) @ x # zs \<and> k x \<notin> k ` set (a # ys) \<and> k x \<notin> set seen"
        by auto
      then show ?thesis by blast
    qed
  qed
qed

lemma distinct_on_sorted_least:
  fixes k :: "'a \<Rightarrow> 'k::linorder" and t :: "'a \<Rightarrow> 't::linorder"
  assumes s: "sorted (map (\<lambda>r. (k r, t r)) xs)"
    and x: "x \<in> set (distinct_on k [] xs)"
    and y: "y \<in> set xs" "k y = k x"
  shows "t x \<le> t y"
proof -
  from distinct_on_first [OF x] obtain ys zs where
    xs: "xs = ys @ x # zs" and fresh: "k x \<notin> k ` set ys" by blast
  from y(2) fresh have "y \<notin> set ys" by (metis imageI)
  with y(1) have "y \<in> set (x # zs)" unfolding xs by auto
  moreover from s have "sorted (map (\<lambda>r. (k r, t r)) (x # zs))"
    unfolding xs by (simp add: sorted_append)
  ultimately have "(k x, t x) \<le> (k y, t y)" by auto
  with y(2) show ?thesis by (simp add: less_eq_prod_def)
qed

lemma rindex_found: "c \<in> set s \<Longrightarrow> \<exists>i. rindex c s = Some i"
proof -
  assume "c \<in> set s"
  then obtain i where "i < length s" "s ! i = c" by (auto simp: in_set_conv_nth)
  then have "i \<in> set (filter (\<lambda>i. s ! i = c) (rev [0..<length s]))" by simp
  then have "filter (\<lambda>i. s ! i = c) (rev [0..<length s]) \<noteq> []" by (rule in_set_not_nil)
  then show ?thesis by (auto simp: rindex_def first_def split: list.splits)
qed

lemma rindex_member:
  assumes "rindex c s = Some i"
  shows "c \<in> set s"
proof -
  from assms obtain js where "filter (\<lambda>i. s ! i = c) (rev [0..<length s]) = i # js"
    by (auto simp: rindex_def first_def split: list.splits)
  then have "i \<in> set (filter (\<lambda>i. s ! i = c) (rev [0..<length s]))" by simp
  then have "i < length s" "s ! i = c" by simp_all
  then show ?thesis using nth_mem by blast
qed

lemma spec_dirname_encoded: "encoded_dirname (spec_from_api_dirname p)"
  by (simp add: encoded_dirname_def spec_from_api_dirname_def Let_def butlast_append)

lemma create_directory_duplicate:
  assumes enc: "encoded_dirname (from_api_dirname pc api_path)"
    and dup: "directory_present d user_id (from_api_dirname pc api_path)"
  shows "create_directory pc d user_id api_path
           = (Inl (DBError (IntegrityError UNIQUE_VIOLATION)), d)"
proof (cases "from_api_dirname pc api_path = ''/''")
  case True
  with dup show ?thesis
    by (simp add: create_directory_def Let_def insert_directory_def db_execute_def)
next
  case False
  with enc have "CHR ''/'' \<in> set (butlast (from_api_dirname pc api_path))"
    by (simp add: encoded_dirname_def)
  from rindex_found [OF this] obtain i where
    "rindex CHR ''/'' (butlast (from_api_dirname pc api_path)) = Some i" by blast
  with False dup show ?thesis
    by (simp add: create_directory_def Let_def insert_directory_def db_execute_def)
qed

lemma insert_directory_cases:
  "insert_directory row d = (Inr v, d') \<Longrightarrow>
     \<not> directory_present d (dir_user_id row) (dir_name row)
     \<and> d' = d\<lparr>directories := directories d @ [row]\<rparr>"
  "insert_directory row d = (Inl e, d') \<Longrightarrow> d' = d"
  "insert_directory row d = (Inl (IntegrityError UNIQUE_VIOLATION), d') \<Longrightarrow>
     directory_present d (dir_user_id row) (dir_name row)"
  by (auto simp: insert_directory_def FOREIGN_KEY_VIOLATION_def UNIQUE_VIOLATION_def
      split: if_splits option.splits)

lemma create_directory_cases:
  assumes "create_directory pc d user_id api_path = (res, d')"
  shows "(\<exists>row. res = Inr () \<and> dir_user_id row = user_id
            \<and> dir_name row = from_api_dirname pc api_path
            \<and> \<not> directory_present d user_id (from_api_dirname pc api_path)
            \<and> d' = d\<lparr>directories := directories d @ [row]\<rparr>
            \<and> encoded_dirname (from_api_dirname pc api_path))
         \<or> (res = Inl (DBError (IntegrityError UNIQUE_VIOLATION)) \<and> d' = d
            \<and> directory_present d user_id (from_api_dirname pc api_path)
            \<and> encoded_dirname (from_api_dirname pc api_path))
         \<or> ((\<exists>e. res = Inl e \<and> e \<noteq> DBError (IntegrityError UNIQUE_VIOLATION)) \<and> d' = d)"
proof -
  let ?name = "from_api_dirname pc api_path"
  show ?thesis
  proof (cases "?name = ''/''")
    case True
    let ?row = "\<lparr>dir_user_id = user_id, dir_name = ?name,
                 dir_parent_user_id = None, dir_parent_name = None\<rparr>"
    from True have enc: "encoded_dirname ?name" by (simp add: encoded_dirname_def)
    from assms True have r: "db_execute (insert_directory ?row d) = (res, d')"
      by (simp add: create_directory_def Let_def)
    obtain v d1 where i: "insert_directory ?row d = (v, d1)"
      by (cases "insert_directory ?row d")
    show ?thesis
    proof (cases v)
      case (Inl e)
      then obtain c where e: "e = IntegrityError c" by (cases e)
      from r i Inl have rd: "res = Inl (DBError e)" "d' = d1" by (simp_all add: db_execute_def)
      from insert_directory_cases(2) [of ?row d e d1] i Inl have "d1 = d" by simp
      show ?thesis
      proof (cases "c = UNIQUE_VIOLATION")
        case True
        with insert_directory_cases(3) [of ?row d d1] i Inl e
        have "directory_present d user_id ?name" by simp
        with rd e True \<open>d1 = d\<close> enc show ?thesis by simp
      next
        case False
        with rd e \<open>d1 = d\<close> show ?thesis by simp
      qed
    next
      case (Inr u)
      from r i Inr have rd: "res = Inr ()" "d' = d1" by (simp_all add: db_execute_def)
      from insert_directory_cases(1) [of ?row d u d1] i Inr
      have "\<not> directory_present d user_id ?name"
        "d1 = d\<lparr>directories := directories d @ [?row]\<rparr>" by simp_all
      with rd enc have "res = Inr () \<and> dir_user_id ?row = user_id
            \<and> dir_name ?row = ?name
            \<and> \<not> directory_present d user_id ?name
            \<and> d' = d\<lparr>directories := directories d @ [?row]\<rparr>
            \<and> encoded_dirname ?name" by simp
      then show ?thesis by blast
    qed
  next
    case False
    show ?thesis
    proof (cases "rindex CHR ''/'' (butlast ?name)")
      case None
      with assms False have "res = Inl (ValueError [''substring not found'']) \<and> d' = d"
        by (auto simp: create_directory_def Let_def)
      then show ?thesis by simp
    next
      case (Some j)
      let ?row = "\<lparr>dir_user_id = user_id, dir_name = ?name,
                 dir_parent_user_id = Some user_id,
                 dir_parent_name = Some (take (j + 1) ?name)\<rparr>"
      have "CHR ''/'' \<in> set (butlast ?name)" by (rule rindex_member [OF Some])
      then have enc: "encoded_dirname ?name" by (simp add: encoded_dirname_def)
      from assms False Some have r: "db_execute (insert_directory ?row d) = (res, d')"
        by (simp add: create_directory_def Let_def)
      obtain v d1 where i: "insert_directory ?row d = (v, d1)"
        by (cases "insert_directory ?row d")
      show ?thesis
      proof (cases v)
        case (Inl e)
        then obtain c where e: "e = IntegrityError c" by (cases e)
        from r i Inl have rd: "res = Inl (DBError e)" "d' = d1" by (simp_all add: db_execute_def)
        from insert_directory_cases(2) [of ?row d e d1] i Inl have "d1 = d" by simp
        show ?thesis
        proof (cases "c = UNIQUE_VIOLATION")
          case True
          with insert_directory_cases(3) [of ?row d d1] i Inl e
          have "directory_present d user_id ?name" by simp
          with rd e True \<open>d1 = d\<close> enc show ?thesis by simp
        next
          case False
          with rd e \<open>d1 = d\<close> show ?thesis by simp
        qed
      next
        case (Inr u)
        from r i Inr have rd: "res = Inr ()" "d' = d1" by (simp_all add: db_execute_def)
        from insert_directory_cases(1) [of ?row d u d1] i Inr
        have "\<not> directory_present d user_id ?name"
          "d1 = d\<lparr>directories := directories d @ [?row]\<rparr>" by simp_all
        with rd enc have "res = Inr () \<and> dir_user_id ?row = user_id
            \<and> dir_name ?row = ?name
            \<and> \<not> directory_present d user_id ?name
            \<and> d' = d\<lparr>directories := directories d @ [?row]\<rparr>
            \<and> encoded_dirname ?name" by simp
        then show ?thesis by blast
      qed
    qed
  qed
qed

lemma ignore_unique_violation_error:
  "ignore_unique_violation (Inl e, d)
     = (if e = DBError (IntegrityError UNIQUE_VIOLATION) then (Inr (), d) else (Inl e, d))"
proof (cases e)
  case (DBError x)
  then show ?thesis by (cases x) (simp add: ignore_unique_violation_def)
qed (simp_all add: ignore_unique_violation_def)

lemma ignore_unique_violation_value: "ignore_unique_violation (Inr v, d) = (Inr (), d)"
  by (simp add: ignore_unique_violation_def)

lemma unique_key_count:
  "distinct (map key xs) \<Longrightarrow> r \<in> set xs \<Longrightarrow> length (filter (\<lambda>x. key x = key r) xs) = 1"
proof (induction xs)
  case Nil
  then show ?case by simp
next
  case (Cons a xs)
  show ?case
  proof (cases "key a = key r")
    case True
    with Cons.prems(1) have "key r \<notin> key ` set xs" by simp
    then have "\<forall>x \<in> set xs. key x \<noteq> key r" by (metis imageI)
    then have "filter (\<lambda>x. key x = key r) xs = []" by (simp add: filter_empty_conv)
    with True show ?thesis by simp
  next
    case False
    with Cons.prems have "r \<in> set xs" "distinct (map key xs)" by auto
    with Cons.IH False show ?thesis by simp
  qed
qed

lemma directory_matches_key:
  "directory_matches uid n = (\<lambda>r. (dir_user_id r, dir_name r) = (uid, n))"
  by (auto simp: directory_matches_def)

lemma ensure_directory_existing:
  assumes "encoded_dirname (from_api_dirname pc api_path)"
    and "directory_present d user_id (from_api_dirname pc api_path)"
  shows "ensure_directory pc d user_id api_path = (Inr (), d)"
  by (simp add: ensure_directory_def create_directory_duplicate [OF assms]
      ignore_unique_violation_error)

lemma ensure_directory_success:
  assumes ok: "ensure_directory pc d user_id api_path = (Inr (), d1)"
  shows "encoded_dirname (from_api_dirname pc api_path)
         \<and> directory_present d1 user_id (from_api_dirname pc api_path)
         \<and> (distinct (map (\<lambda>r. (dir_user_id r, dir_name r)) (directories d))
            \<longrightarrow> length (filter (directory_matches user_id (from_api_dirname pc api_path))
                          (directories d1)) = 1)"
proof -
  let ?name = "from_api_dirname pc api_path"
  obtain res d' where c: "create_directory pc d user_id api_path = (res, d')"
    by (cases "create_directory pc d user_id api_path")
  from create_directory_cases [OF c]
  consider
    (new) row where "res = Inr ()" "dir_user_id row = user_id" "dir_name row = ?name"
      "\<not> directory_present d user_id ?name" "d' = d\<lparr>directories := directories d @ [row]\<rparr>"
      "encoded_dirname ?name"
    | (dup) "res = Inl (DBError (IntegrityError UNIQUE_VIOLATION))" "d' = d"
      "directory_present d user_id ?name" "encoded_dirname ?name"
    | (err) e where "res = Inl e" "e \<noteq> DBError (IntegrityError UNIQUE_VIOLATION)" "d' = d"
    by blast
  then show ?thesis
  proof cases
    case new
    from ok c new(1) have d1: "d1 = d'"
      by (simp add: ensure_directory_def ignore_unique_violation_value)
    from new(4) have "filter (directory_matches user_id ?name) (directories d) = []"
      by (auto simp: directory_present_def directory_matches_def filter_empty_conv)
    with new(2,3,5) d1
    have "length (filter (directory_matches user_id ?name) (directories d1)) = 1"
      by (simp add: directory_matches_def)
    moreover from new(2,3,5) d1 have "directory_present d1 user_id ?name"
      by (auto simp: directory_present_def)
    ultimately show ?thesis using new(6) by simp
  next
    case dup
    from ok c dup(1,2) have d1: "d1 = d"
      by (simp add: ensure_directory_def ignore_unique_violation_error)
    from dup(3) obtain r where r: "r \<in> set (directories d)"
      "(dir_user_id r, dir_name r) = (user_id, ?name)"
      by (auto simp: directory_present_def)
    have "length (filter (directory_matches user_id ?name) (directories d)) = 1"
      if "distinct (map (\<lambda>r. (dir_user_id r, dir_name r)) (directories d))"
      using unique_key_count [OF that r(1)] r(2) by (simp add: directory_matches_key)
    with dup(3,4) d1 show ?thesis by simp
  next
    case err
    with ok c show ?thesis
      by (simp add: ensure_directory_def ignore_unique_violation_error)
  qed
qed

lemma ensure_db_user_result:
  "ensure_db_user d user_id
     = (Inr (), if user_id \<in> set (users d) then d else d\<lparr>users := users d @ [user_id]\<rparr>)"
  by (simp add: ensure_db_user_def insert_user_def db_execute_def ignore_unique_violation_def)

lemma distinct_count_one:
  "distinct xs \<Longrightarrow> x \<in> set xs \<Longrightarrow> length (filter (\<lambda>y. y = x) xs) = 1"
  using unique_key_count [of "\<lambda>y. y" xs x] by simp

lemma sorted_regroup:
  fixes a :: "'x \<Rightarrow> 'a::linorder" and b :: "'x \<Rightarrow> 'b::linorder"
    and c :: "'x \<Rightarrow> 'c::linorder" and t :: "'x \<Rightarrow> 't::linorder"
  shows "sorted (map (\<lambda>r. (a r, b r, c r, t r)) xs)
           = sorted (map (\<lambda>r. ((a r, b r, c r), t r)) xs)"
proof -
  have "(a x, b x, c x, t x) \<le> (a y, b y, c y, t y)
          \<longleftrightarrow> ((a x, b x, c x), t x) \<le> ((a y, b y, c y), t y)" for x y
    by (auto simp: less_eq_prod_def less_prod_def)
  then show ?thesis by (simp add: sorted_map)
qed

text \<open>
  For every database, \<open>files_in_directory\<close> returns one row per file of the
  directory, and the row of each file is a version of least creation timestamp.
\<close>

lemma files_in_directory_oldest:
  "distinct (map (\<lambda>m. (model_parent_name m, model_name m)) (files_in_directory d user_id db_dirname))
   \<and> (\<forall>m \<in> set (files_in_directory d user_id db_dirname).
         \<exists>r \<in> set (files d). is_in_directory user_id db_dirname r \<and> m = file_to_dict False r
           \<and> (\<forall>r' \<in> set (files d).
                 is_in_directory user_id db_dirname r' \<and> file_name r' = file_name r
                 \<longrightarrow> file_created_at r \<le> file_created_at r'))"
proof -
  let ?k = "\<lambda>r. (file_user_id r, file_parent_name r, file_name r)"
  let ?in = "filter (is_in_directory user_id db_dirname) (files d)"
  let ?sorted = "sort_key (\<lambda>r. (file_user_id r, file_parent_name r, file_name r, file_created_at r)) ?in"
  let ?rows = "distinct_on ?k [] ?sorted"
  have res: "files_in_directory d user_id db_dirname = map (file_to_dict False) ?rows"
    by (simp add: files_in_directory_def)
  have sub: "set ?rows \<subseteq> set ?in"
    using distinct_on_subset [of ?k "[]" ?sorted] by simp
  have "distinct (map ?k ?rows)" by (rule distinct_on_distinct)
  moreover have "inj_on (\<lambda>r. (file_parent_name r, file_name r)) (set ?rows) \<longleftrightarrow> inj_on ?k (set ?rows)"
    using sub by (auto simp: inj_on_def is_in_directory_def)
  ultimately have "distinct (map (\<lambda>r. (file_parent_name r, file_name r)) ?rows)"
    by (simp add: distinct_map)
  then have a: "distinct (map (\<lambda>m. (model_parent_name m, model_name m))
                   (files_in_directory d user_id db_dirname))"
    by (simp add: res comp_def file_to_dict_def)
  have srt: "sorted (map (\<lambda>r. (?k r, file_created_at r)) ?sorted)"
    using sorted_sort_key [of "\<lambda>r. (file_user_id r, file_parent_name r, file_name r, file_created_at r)" ?in]
    by (simp only: sorted_regroup)
  have b: "\<exists>r \<in> set (files d). is_in_directory user_id db_dirname r \<and> m = file_to_dict False r
           \<and> (\<forall>r' \<in> set (files d).
                 is_in_directory user_id db_dirname r' \<and> file_name r' = file_name r
                 \<longrightarrow> file_created_at r \<le> file_created_at r')"
    if m: "m \<in> set (files_in_directory d user_id db_dirname)" for m
  proof -
    from m obtain r where r: "r \<in> set ?rows" and mr: "m = file_to_dict False r"
      unfolding res by auto
    from r sub have rin: "r \<in> set (files d)" "is_in_directory user_id db_dirname r" by auto
    have "file_created_at r \<le> file_created_at r'"
      if "r' \<in> set (files d)" "is_in_directory user_id db_dirname r'" "file_name r' = file_name r"
      for r'
    proof -
      from that have "r' \<in> set ?sorted" by simp
      moreover from that rin have "?k r' = ?k r" by (simp add: is_in_directory_def)
      ultimately show ?thesis
        using distinct_on_sorted_least [of ?k file_created_at ?sorted r r', OF srt r] by simp
    qed
    with rin mr show ?thesis by blast
  qed
  from a b show ?thesis by blast
qed

text \<open>
  When the path has a version, \<open>create_checkpoint\<close> inserts one checkpoint row that
  references a version of greatest creation timestamp and returns its id and creation
  time. On no input at all does \<open>create_checkpoint\<close> raise \<open>NoSuchFile\<close>.
\<close>

lemma create_checkpoint_latest:
  assumes "filter (file_where pc user_id api_path) (files d) \<noteq> []"
  shows "\<exists>r \<in> set (filter (file_where pc user_id api_path) (files d)).
           (\<forall>r' \<in> set (filter (file_where pc user_id api_path) (files d)).
              file_created_at r' \<le> file_created_at r)
           \<and> create_checkpoint pc now d user_id api_path
               = (Inr (checkpoints_id_seq d, now),
                  d\<lparr>checkpoints := checkpoints d @
                       [\<lparr>cp_id = checkpoints_id_seq d, cp_file_id = file_id r,
                         cp_created_at = now\<rparr>],
                     checkpoints_id_seq := checkpoints_id_seq d + 1\<rparr>)"
proof -
  let ?vs = "filter (file_where pc user_id api_path) (files d)"
  let ?f = "\<lambda>r. - file_created_at r"
  from assms obtain y where y: "first (sort_key ?f ?vs) = Some y"
    using first_sort_key_none [of ?f ?vs] by (cases "first (sort_key ?f ?vs)") auto
  from first_sort_key_some [OF y]
  have yin: "y \<in> set ?vs" and mx: "\<forall>x \<in> set ?vs. file_created_at x \<le> file_created_at y"
    by auto
  from yin have "file_id y \<in> file_id ` set (files d)" by auto
  then have "create_checkpoint pc now d user_id api_path
               = (Inr (checkpoints_id_seq d, now),
                  d\<lparr>checkpoints := checkpoints d @
                       [\<lparr>cp_id = checkpoints_id_seq d, cp_file_id = file_id y,
                         cp_created_at = now\<rparr>],
                     checkpoints_id_seq := checkpoints_id_seq d + 1\<rparr>)"
    unfolding create_checkpoint_def select_file_one y
    by (simp add: insert_checkpoint_def db_execute_def)
  with yin mx show ?thesis by blast
qed

lemma create_checkpoint_never_no_such_file:
  "fst (create_checkpoint pc now d user_id api_path) \<noteq> Inl (NoSuchFile args)"
  by (auto simp: create_checkpoint_def Let_def insert_checkpoint_def db_execute_def
      split: option.splits)

text \<open>
  The \<open>WHERE\<close> clauses of the file queries select the version rows of the path, and
  the join of \<open>restore_checkpoint\<close> the versions its checkpoint id stands for.
\<close>

lemma file_where_versions:
  "filter (file_where pc user_id path) (files d) = versions_of pc d user_id path"
  unfolding versions_of_def
  by (rule filter_cong) (auto simp: file_where_def split: prod.splits)

lemma restore_match_versions:
  "filter (restore_match pc d user_id path checkpoint_id) (files d)
     = checkpointed_versions pc d user_id path checkpoint_id"
proof -
  have "checkpointed_versions pc d user_id path checkpoint_id
          = filter (\<lambda>r. \<exists>c \<in> set (checkpoints d). cp_id c = checkpoint_id \<and> cp_file_id c = file_id r)
              (filter (file_where pc user_id path) (files d))"
    by (simp only: checkpointed_versions_def file_where_versions)
  also have "\<dots> = filter (restore_match pc d user_id path checkpoint_id) (files d)"
    unfolding filter_filter
    by (rule filter_cong) (auto simp: restore_match_def)
  finally show ?thesis by simp
qed

lemma restore_match_member:
  "r \<in> set (files d) \<Longrightarrow>
     restore_match pc d user_id path checkpoint_id r
       \<longleftrightarrow> r \<in> set (checkpointed_versions pc d user_id path checkpoint_id)"
  unfolding restore_match_versions [symmetric] by simp

lemma restore_checkpoint_files:
  "files (snd (restore_checkpoint pc now d user_id path checkpoint_id))
     = map (\<lambda>r. if r \<in> set (checkpointed_versions pc d user_id path checkpoint_id)
                then r\<lparr>file_created_at := now\<rparr> else r) (files d)"
proof -
  have "files (snd (restore_checkpoint pc now d user_id path checkpoint_id))
     = map (\<lambda>r. if restore_match pc d user_id path checkpoint_id r
                then r\<lparr>file_created_at := now\<rparr> else r) (files d)"
    by (simp add: restore_checkpoint_def Let_def)
  also have "\<dots> = map (\<lambda>r. if r \<in> set (checkpointed_versions pc d user_id path checkpoint_id)
                then r\<lparr>file_created_at := now\<rparr> else r) (files d)"
    by (rule map_cong) (simp_all add: restore_match_member)
  finally show ?thesis .
qed

lemma restore_checkpoint_result:
  "restore_checkpoint pc now d user_id path checkpoint_id
     = (if checkpointed_versions pc d user_id path checkpoint_id = []
        then Inl (NoSuchFile []) else Inr (),
        d\<lparr>files := map (\<lambda>r. if r \<in> set (checkpointed_versions pc d user_id path checkpoint_id)
                then r\<lparr>file_created_at := now\<rparr> else r) (files d)\<rparr>)"
proof -
  let ?m = "restore_match pc d user_id path checkpoint_id"
  have m: "map (\<lambda>r. if ?m r then r\<lparr>file_created_at := now\<rparr> else r) (files d)
         = map (\<lambda>r. if r \<in> set (checkpointed_versions pc d user_id path checkpoint_id)
                then r\<lparr>file_created_at := now\<rparr> else r) (files d)"
    by (rule map_cong) (simp_all add: restore_match_member)
  have l: "length (filter ?m (files d)) = 0
             \<longleftrightarrow> checkpointed_versions pc d user_id path checkpoint_id = []"
    by (simp add: restore_match_versions)
  show ?thesis
    unfolding restore_checkpoint_def Let_def m l by simp
qed

subsection \<open>Directories\<close>

text \<open>
  Claim C4 (\<open>delete_directory\<close>). Whatever the backing store answers to the
  \<open>DELETE\<close>: a row count of zero raises \<open>NoSuchDirectory\<close>; \<open>DirectoryNotEmpty\<close>
  is raised exactly when the store reports an integrity error whose code is the
  foreign-key violation; an integrity error with any other code is raised again as it
  is; a positive row count is returned. The errors are told apart by the \<open>pgcode\<close>.
\<close>

theorem delete_directory_error_translation:
  "(\<forall>d'. execute user_id (from_api_dirname pc api_path) d = (Inr 0, d')
        \<longrightarrow> delete_directory execute pc d user_id api_path = (Inl (NoSuchDirectory [api_path]), d'))
   \<and> ((\<exists>args. fst (delete_directory execute pc d user_id api_path) = Inl (DirectoryNotEmpty args))
        \<longleftrightarrow> fst (execute user_id (from_api_dirname pc api_path) d)
              = Inl (IntegrityError FOREIGN_KEY_VIOLATION))
   \<and> (\<forall>pgcode d'. execute user_id (from_api_dirname pc api_path) d = (Inl (IntegrityError pgcode), d')
                   \<and> pgcode \<noteq> FOREIGN_KEY_VIOLATION
        \<longrightarrow> delete_directory execute pc d user_id api_path
              = (Inl (DBError (IntegrityError pgcode)), d'))
   \<and> (\<forall>d'. execute user_id (from_api_dirname pc api_path) d
               = (Inl (IntegrityError FOREIGN_KEY_VIOLATION), d')
        \<longrightarrow> delete_directory execute pc d user_id api_path
              = (Inl (DirectoryNotEmpty [api_path]), d'))
   \<and> (\<forall>n d'. execute user_id (from_api_dirname pc api_path) d = (Inr n, d') \<and> 0 < n
        \<longrightarrow> delete_directory execute pc d user_id api_path = (Inr n, d'))"
proof -
  obtain v d' where ex: "execute user_id (from_api_dirname pc api_path) d = (v, d')"
    by (cases "execute user_id (from_api_dirname pc api_path) d")
  show ?thesis
  proof (cases v)
    case (Inl e)
    then obtain pgcode where "e = IntegrityError pgcode" by (cases e)
    with Inl ex show ?thesis
      by (simp add: delete_directory_def Let_def)
  next
    case (Inr n)
    with ex show ?thesis
      by (simp add: delete_directory_def Let_def)
  qed
qed

theorem delete_directory_error_translation_witness:
  "delete_directory pg_delete_directories spec_codec sample_db ''u'' ''nodir''
     = (Inl (NoSuchDirectory [''nodir'']), sample_db)
   \<and> delete_directory pg_delete_directories spec_codec sample_db ''u'' ''''
     = (Inl (DirectoryNotEmpty ['''']), sample_db)
   \<and> delete_directory (\<lambda>u n d. (Inl (IntegrityError ''23514''), d)) spec_codec sample_db ''u'' ''docs''
     = (Inl (DBError (IntegrityError ''23514'')), sample_db)
   \<and> fst (delete_directory pg_delete_directories spec_codec sample_db ''u'' ''docs'') = Inr 1"
proof -
  have a: "pg_delete_directories ''u'' (from_api_dirname spec_codec ''nodir'') sample_db
             = (Inr 0, sample_db)" by code_simp
  have b: "pg_delete_directories ''u'' (from_api_dirname spec_codec '''') sample_db
             = (Inl (IntegrityError FOREIGN_KEY_VIOLATION), sample_db)" by code_simp
  have c: "''23514'' \<noteq> FOREIGN_KEY_VIOLATION" by code_simp
  have e: "fst (pg_delete_directories ''u'' (from_api_dirname spec_codec ''docs'') sample_db) = Inr 1"
    by code_simp
  obtain d' where e': "pg_delete_directories ''u'' (from_api_dirname spec_codec ''docs'') sample_db = (Inr 1, d')"
    using e by (cases "pg_delete_directories ''u'' (from_api_dirname spec_codec ''docs'') sample_db") auto
  show ?thesis
    using delete_directory_error_translation [of pg_delete_directories "''u''" spec_codec "''nodir''" sample_db]
      delete_directory_error_translation [of pg_delete_directories "''u''" spec_codec "''''" sample_db]
      delete_directory_error_translation [of "\<lambda>u n d. (Inl (IntegrityError ''23514''), d)" "''u''" spec_codec "''docs''" sample_db]
      delete_directory_error_translation [of pg_delete_directories "''u''" spec_codec "''docs''" sample_db]
      a b c e'
    by auto
qed
text \<open>
  Claim C8, as the code has it. On the sample database, \<open>create_directory\<close> of the
  existing directory \<open>docs\<close> raises the store's \<open>IntegrityError\<close> with the
  unique-violation code; it does not raise \<open>AlreadyExists\<close>.
\<close>

theorem create_directory_duplicate_raises_integrity_error:
  "fst (create_directory spec_codec sample_db ''u'' ''docs'')
     = Inl (DBError (IntegrityError UNIQUE_VIOLATION))
   \<and> fst (create_directory spec_codec sample_db ''u'' ''docs'') \<noteq> Inl (AlreadyExists [''docs''])"
  by code_simp

text \<open>
  Claim C8, amended (\<open>ensure_directory\<close>, \<open>ensure_db_user\<close>). For a directory whose
  row already exists (its encoded name being the root or holding a separator before its
  last character), \<open>ensure_directory\<close> returns normally and leaves the database as it
  was, while \<open>create_directory\<close> raises the store's \<open>IntegrityError\<close> with the
  unique-violation code, untranslated. After a successful \<open>ensure_directory\<close> a second
  call with the same arguments returns normally and changes nothing, and the directory
  has exactly one row if the key was unique before. \<open>ensure_db_user\<close> never raises,
  a second call changes nothing, and the tenant has exactly one row if tenants were
  unique before.
\<close>

theorem ensure_operations_swallow_duplicates:
  "(encoded_dirname (from_api_dirname pc api_path)
      \<and> directory_present d user_id (from_api_dirname pc api_path)
      \<longrightarrow> ensure_directory pc d user_id api_path = (Inr (), d)
        \<and> create_directory pc d user_id api_path
            = (Inl (DBError (IntegrityError UNIQUE_VIOLATION)), d))
   \<and> (ensure_directory pc d user_id api_path = (Inr (), d1)
      \<longrightarrow> ensure_directory pc d1 user_id api_path = (Inr (), d1)
        \<and> (distinct (map (\<lambda>r. (dir_user_id r, dir_name r)) (directories d))
           \<longrightarrow> length (filter (directory_matches user_id (from_api_dirname pc api_path))
                         (directories d1)) = 1))
   \<and> (user_id \<in> set (users d) \<longrightarrow> ensure_db_user d user_id = (Inr (), d))
   \<and> fst (ensure_db_user d user_id) = Inr ()
   \<and> ensure_db_user (snd (ensure_db_user d user_id)) user_id
       = (Inr (), snd (ensure_db_user d user_id))
   \<and> (distinct (users d)
      \<longrightarrow> length (filter (\<lambda>u. u = user_id) (users (snd (ensure_db_user d user_id)))) = 1)"
proof -
  have a: "encoded_dirname (from_api_dirname pc api_path)
      \<and> directory_present d user_id (from_api_dirname pc api_path)
      \<longrightarrow> ensure_directory pc d user_id api_path = (Inr (), d)
        \<and> create_directory pc d user_id api_path
            = (Inl (DBError (IntegrityError UNIQUE_VIOLATION)), d)"
    using ensure_directory_existing create_directory_duplicate by blast
  have b: "ensure_directory pc d user_id api_path = (Inr (), d1)
      \<longrightarrow> ensure_directory pc d1 user_id api_path = (Inr (), d1)
        \<and> (distinct (map (\<lambda>r. (dir_user_id r, dir_name r)) (directories d))
           \<longrightarrow> length (filter (directory_matches user_id (from_api_dirname pc api_path))
                         (directories d1)) = 1)"
  proof
    assume ok: "ensure_directory pc d user_id api_path = (Inr (), d1)"
    note s = ensure_directory_success [OF ok]
    from s have "ensure_directory pc d1 user_id api_path = (Inr (), d1)"
      using ensure_directory_existing by blast
    with s show "ensure_directory pc d1 user_id api_path = (Inr (), d1)
        \<and> (distinct (map (\<lambda>r. (dir_user_id r, dir_name r)) (directories d))
           \<longrightarrow> length (filter (directory_matches user_id (from_api_dirname pc api_path))
                         (directories d1)) = 1)" by blast
  qed
  have c: "user_id \<in> set (users d) \<longrightarrow> ensure_db_user d user_id = (Inr (), d)"
    by (simp add: ensure_db_user_result)
  have e: "fst (ensure_db_user d user_id) = Inr ()"
    by (simp add: ensure_db_user_result)
  have f: "ensure_db_user (snd (ensure_db_user d user_id)) user_id
       = (Inr (), snd (ensure_db_user d user_id))"
    by (simp add: ensure_db_user_result)
  have g: "distinct (users d)
      \<longrightarrow> length (filter (\<lambda>u. u = user_id) (users (snd (ensure_db_user d user_id)))) = 1"
  proof
    assume dist: "distinct (users d)"
    show "length (filter (\<lambda>u. u = user_id) (users (snd (ensure_db_user d user_id)))) = 1"
    proof (cases "user_id \<in> set (users d)")
      case True
      with distinct_count_one [OF dist True] show ?thesis by (simp add: ensure_db_user_result)
    next
      case False
      then have "filter (\<lambda>u. u = user_id) (users d) = []" by (auto simp: filter_empty_conv)
      with False show ?thesis by (simp add: ensure_db_user_result)
    qed
  qed
  from a b c e f g show ?thesis by (intro conjI)
qed

theorem ensure_operations_swallow_duplicates_witness:
  "ensure_directory spec_codec sample_db ''u'' ''docs'' = (Inr (), sample_db)
   \<and> create_directory spec_codec sample_db ''u'' ''docs''
       = (Inl (DBError (IntegrityError UNIQUE_VIOLATION)), sample_db)
   \<and> ensure_directory spec_codec (snd (ensure_directory spec_codec sample_db ''u'' ''new''))
        ''u'' ''new''
       = (Inr (), snd (ensure_directory spec_codec sample_db ''u'' ''new''))
   \<and> length (filter (directory_matches ''u'' (from_api_dirname spec_codec ''new''))
        (directories (snd (ensure_directory spec_codec sample_db ''u'' ''new'')))) = 1
   \<and> ensure_db_user sample_db ''u'' = (Inr (), sample_db)
   \<and> length (filter (\<lambda>u. u = ''u'') (users (snd (ensure_db_user sample_db ''u'')))) = 1"
proof -
  let ?d1 = "snd (ensure_directory spec_codec sample_db ''u'' ''new'')"
  have enc: "encoded_dirname (from_api_dirname spec_codec ''docs'')" by code_simp
  have pres: "directory_present sample_db ''u'' (from_api_dirname spec_codec ''docs'')"
    by code_simp
  have "fst (ensure_directory spec_codec sample_db ''u'' ''new'') = Inr ()" by code_simp
  then have ok: "ensure_directory spec_codec sample_db ''u'' ''new'' = (Inr (), ?d1)"
    by (simp add: prod_eq_iff)
  have dk: "distinct (map (\<lambda>r. (dir_user_id r, dir_name r)) (directories sample_db))"
    by code_simp
  have du: "distinct (users sample_db)" by code_simp
  have mem: "''u'' \<in> set (users sample_db)" by code_simp
  note t = ensure_operations_swallow_duplicates [of spec_codec "''docs''" sample_db "''u''" sample_db]
  note n = ensure_operations_swallow_duplicates [of spec_codec "''new''" sample_db "''u''" ?d1]
  from t enc pres have a: "ensure_directory spec_codec sample_db ''u'' ''docs'' = (Inr (), sample_db)
   \<and> create_directory spec_codec sample_db ''u'' ''docs''
       = (Inl (DBError (IntegrityError UNIQUE_VIOLATION)), sample_db)" by blast
  from n ok dk have b: "ensure_directory spec_codec ?d1 ''u'' ''new'' = (Inr (), ?d1)
   \<and> length (filter (directory_matches ''u'' (from_api_dirname spec_codec ''new''))
        (directories ?d1)) = 1" by blast
  from t mem du have c: "ensure_db_user sample_db ''u'' = (Inr (), sample_db)
   \<and> length (filter (\<lambda>u. u = ''u'') (users (snd (ensure_db_user sample_db ''u'')))) = 1"
    by blast
  from a b c show ?thesis by blast
qed

subsection \<open>Files\<close>

text \<open>
  Claim C1 (\<open>rename_file\<close>). The \<open>UPDATE\<close> of \<open>rename_file\<close> selects its rows by
  tenant and parent directory only; the old filename is computed and never used. In the
  sample database, renaming \<open>a.txt\<close> to \<open>c.txt\<close> succeeds and retargets the row
  of \<open>b.txt\<close> as well: every file row of the directory carries the new name.
\<close>

theorem rename_file_retargets_whole_directory:
  "rename_file spec_codec sample_db ''u'' ''a.txt'' ''c.txt''
     = (Inr (), sample_db\<lparr>files :=
        [\<lparr>file_id = 1, file_name = ''c.txt'', file_user_id = ''u'', file_parent_name = ''/'',
          file_content = ''v1'', file_created_at = 5\<rparr>,
         \<lparr>file_id = 2, file_name = ''c.txt'', file_user_id = ''u'', file_parent_name = ''/'',
          file_content = ''v2'', file_created_at = 10\<rparr>,
         \<lparr>file_id = 3, file_name = ''c.txt'', file_user_id = ''u'', file_parent_name = ''/'',
          file_content = ''w1'', file_created_at = 7\<rparr>]\<rparr>)"
  by code_simp

text \<open>
  Claim C2 (\<open>files_in_directory\<close>). The query orders by
  \<open>(user_id, parent_name, name, created_at)\<close> with \<open>created_at\<close> ascending and keeps
  the first row of each \<open>(user_id, parent_name, name)\<close>. For \<open>a.txt\<close>, whose versions
  were created at 5 and at 10, the listing returns the version created at 5: one row per
  file key, but the oldest version, not the most recent.
\<close>

theorem files_in_directory_returns_oldest_version:
  "files_in_directory sample_db ''u'' ''/''
     = [\<lparr>model_name = ''a.txt'', model_created_at = 5, model_parent_name = ''/'',
         model_content = None\<rparr>,
        \<lparr>model_name = ''b.txt'', model_created_at = 7, model_parent_name = ''/'',
         model_content = None\<rparr>]"
  by code_simp

text \<open>
  Claim C3 (\<open>save_file\<close>). \<open>FileTooLarge\<close> is raised if and only if
  \<open>max_size_bytes\<close> is not the unlimited sentinel and the content is longer than
  \<open>max_size_bytes\<close>. Whenever \<open>save_file\<close> raises, the database is as before.
  On success the files table is the old table followed by one new row, which carries
  the tenant, the parent and name of the path, the content and the current time.
\<close>

theorem save_file_size_check_and_append:
  "(fst (save_file pc UNLIMITED now d user_id path content max_size_bytes) = Inl FileTooLarge
      \<longleftrightarrow> max_size_bytes \<noteq> UNLIMITED \<and> int (length content) > max_size_bytes)
   \<and> (\<forall>e. fst (save_file pc UNLIMITED now d user_id path content max_size_bytes) = Inl e
        \<longrightarrow> snd (save_file pc UNLIMITED now d user_id path content max_size_bytes) = d)
   \<and> (\<forall>i. fst (save_file pc UNLIMITED now d user_id path content max_size_bytes) = Inr i
        \<longrightarrow> (\<exists>row. files (snd (save_file pc UNLIMITED now d user_id path content max_size_bytes))
                      = files d @ [row]
                  \<and> file_user_id row = user_id
                  \<and> (file_parent_name row, file_name row) = split_api_filepath pc path
                  \<and> file_content row = content \<and> file_created_at row = now
                  \<and> file_id row = i))"
proof -
  let ?r = "save_file pc UNLIMITED now d user_id path content max_size_bytes"
  obtain directory name where sp: "split_api_filepath pc path = (directory, name)"
    by (cases "split_api_filepath pc path")
  let ?ins = "insert_file name user_id directory content now d"
  obtain v d' where ins: "?ins = (v, d')" by (cases ?ins)
  show ?thesis
  proof (cases "max_size_bytes \<noteq> UNLIMITED \<and> int (length content) > max_size_bytes")
    case True
    then have "?r = (Inl FileTooLarge, d)"
      by (simp add: save_file_def check_content_def)
    with True show ?thesis by simp
  next
    case False
    then have r: "?r = db_execute ?ins"
      by (auto simp: save_file_def check_content_def sp)
    show ?thesis
    proof (cases v)
      case (Inl e)
      with ins insert_file_cases(1) [of name user_id directory content now d e d']
      have "?r = (Inl (DBError e), d)" by (simp add: r db_execute_def)
      with False show ?thesis by simp
    next
      case (Inr i)
      with ins insert_file_cases(2) [of name user_id directory content now d i d']
      have "?r = (Inr (files_id_seq d),
             d\<lparr>files := files d @
               [\<lparr>file_id = files_id_seq d, file_name = name, file_user_id = user_id,
                 file_parent_name = directory, file_content = content, file_created_at = now\<rparr>],
             files_id_seq := files_id_seq d + 1\<rparr>)"
        by (simp add: r db_execute_def)
      with False sp show ?thesis by simp
    qed
  qed
qed

theorem save_file_size_check_and_append_witness:
  "fst (save_file spec_codec 0 30 sample_db ''u'' ''a.txt'' ''hello'' 3) = Inl FileTooLarge
   \<and> snd (save_file spec_codec 0 30 sample_db ''u'' ''a.txt'' ''hello'' 3) = sample_db
   \<and> fst (save_file spec_codec 0 30 sample_db ''u'' ''a.txt'' ''hello'' 0) = Inr 4
   \<and> (\<exists>row. files (snd (save_file spec_codec 0 30 sample_db ''u'' ''a.txt'' ''hello'' 0))
               = files sample_db @ [row]
          \<and> file_user_id row = ''u'' \<and> file_parent_name row = ''/'' \<and> file_name row = ''a.txt''
          \<and> file_content row = ''hello'' \<and> file_created_at row = 30 \<and> file_id row = 4)"
proof -
  have big: "(3::int) \<noteq> 0 \<and> int (length ''hello'') > 3" by simp
  have ok: "fst (save_file spec_codec 0 30 sample_db ''u'' ''a.txt'' ''hello'' 0) = Inr 4"
    by code_simp
  have sp: "split_api_filepath spec_codec ''a.txt'' = (''/'', ''a.txt'')" by code_simp
  show ?thesis
    using save_file_size_check_and_append [of spec_codec 0 30 sample_db "''u''" "''a.txt''" "''hello''" 3]
      save_file_size_check_and_append [of spec_codec 0 30 sample_db "''u''" "''a.txt''" "''hello''" 0]
      big ok sp
    by auto
qed

text \<open>
  Claim C5, as the code has it. Two contents saved to \<open>c.txt\<close> one after the other at
  the same time 100: both saves succeed, and \<open>get_file\<close> returns the content saved
  first. The query orders by \<open>created_at\<close> alone, which does not order the two rows.
\<close>

theorem get_file_equal_timestamps_returns_first:
  "fst (save_files spec_codec 0 sample_db ''u'' ''c.txt'' [(100, ''first''), (100, ''second'')])
     = Inr ()
   \<and> get_file spec_codec
        (snd (save_files spec_codec 0 sample_db ''u'' ''c.txt'' [(100, ''first''), (100, ''second'')]))
        ''u'' ''c.txt'' True
       = Inr \<lparr>model_name = ''c.txt'', model_created_at = 100, model_parent_name = ''/'',
              model_content = Some ''first''\<rparr>"
  by code_simp

text \<open>
  Claim C5, amended (\<open>get_file\<close>, \<open>file_exists\<close>). When the path has no version row,
  \<open>get_file\<close> raises \<open>NoSuchFile\<close>. When it has one, \<open>get_file\<close> returns a version
  row of the path whose creation timestamp is the maximum over all version rows of the
  path. \<open>file_exists\<close> is true exactly when \<open>get_file\<close> does not raise
  \<open>NoSuchFile\<close>. After a caller has saved contents one after the other, each save
  at a strictly later time than the one before and than every version already stored,
  \<open>get_file\<close> returns the content saved last.
\<close>

theorem get_file_returns_latest_version:
  "(versions_of pc d user_id path = []
      \<longrightarrow> get_file pc d user_id path include_content = Inl (NoSuchFile [path]))
   \<and> (versions_of pc d user_id path \<noteq> []
      \<longrightarrow> (\<exists>r \<in> set (versions_of pc d user_id path).
             get_file pc d user_id path include_content = Inr (file_to_dict include_content r)
             \<and> (\<forall>r' \<in> set (versions_of pc d user_id path).
                   file_created_at r' \<le> file_created_at r)))
   \<and> file_exists pc d user_id path
        = Inr (\<not> (\<exists>args. get_file pc d user_id path include_content = Inl (NoSuchFile args)))
   \<and> (saves \<noteq> [] \<and> sorted_wrt (<) (map fst saves)
       \<and> (\<forall>r \<in> set (versions_of pc d user_id path). file_created_at r < fst (hd saves))
       \<and> save_files pc UNLIMITED d user_id path saves = (Inr (), d')
      \<longrightarrow> get_file pc d' user_id path True
            = Inr \<lparr>model_name = snd (split_api_filepath pc path),
                   model_created_at = fst (last saves),
                   model_parent_name = fst (split_api_filepath pc path),
                   model_content = Some (snd (last saves))\<rparr>)"
proof -
  have a: "versions_of pc d user_id path = []
      \<longrightarrow> get_file pc d user_id path include_content = Inl (NoSuchFile [path])"
    using get_file_none [of pc user_id path d include_content]
    unfolding file_where_versions by blast
  have b: "versions_of pc d user_id path \<noteq> []
      \<longrightarrow> (\<exists>r \<in> set (versions_of pc d user_id path).
             get_file pc d user_id path include_content = Inr (file_to_dict include_content r)
             \<and> (\<forall>r' \<in> set (versions_of pc d user_id path).
                   file_created_at r' \<le> file_created_at r))"
    using get_file_some [of pc user_id path d include_content]
    unfolding file_where_versions by blast
  have c: "file_exists pc d user_id path
        = Inr (\<not> (\<exists>args. get_file pc d user_id path include_content = Inl (NoSuchFile args)))"
    by (simp only: file_exists_iff get_file_raises_iff)
  have e: "saves \<noteq> [] \<and> sorted_wrt (<) (map fst saves)
       \<and> (\<forall>r \<in> set (versions_of pc d user_id path). file_created_at r < fst (hd saves))
       \<and> save_files pc UNLIMITED d user_id path saves = (Inr (), d')
      \<longrightarrow> get_file pc d' user_id path True
            = Inr \<lparr>model_name = snd (split_api_filepath pc path),
                   model_created_at = fst (last saves),
                   model_parent_name = fst (split_api_filepath pc path),
                   model_content = Some (snd (last saves))\<rparr>"
    using save_files_then_get [of saves pc user_id path d UNLIMITED d']
    unfolding file_where_versions by blast
  from a b c e show ?thesis by (intro conjI)
qed

theorem get_file_returns_latest_version_witness:
  "get_file spec_codec tenants_db ''u'' ''none.txt'' True = Inl (NoSuchFile [''none.txt''])
   \<and> file_exists spec_codec tenants_db ''u'' ''none.txt'' = Inr False
   \<and> get_file spec_codec tenants_db ''w'' ''a.txt'' True = Inl (NoSuchFile [''a.txt''])
   \<and> (\<exists>r \<in> set (versions_of spec_codec tenants_db ''u'' ''a.txt'').
         get_file spec_codec tenants_db ''u'' ''a.txt'' True = Inr (file_to_dict True r)
         \<and> (\<forall>r' \<in> set (versions_of spec_codec tenants_db ''u'' ''a.txt'').
               file_created_at r' \<le> file_created_at r))
   \<and> get_file spec_codec tenants_db ''u'' ''a.txt'' True
       = Inr \<lparr>model_name = ''a.txt'', model_created_at = 10, model_parent_name = ''/'',
              model_content = Some ''v2''\<rparr>
   \<and> file_exists spec_codec tenants_db ''u'' ''a.txt'' = Inr True
   \<and> get_file spec_codec
        (snd (save_files spec_codec 0 tenants_db ''u'' ''a.txt'' [(20, ''x''), (30, ''y'')]))
        ''u'' ''a.txt'' True
       = Inr \<lparr>model_name = ''a.txt'', model_created_at = 30, model_parent_name = ''/'',
              model_content = Some ''y''\<rparr>"
proof -
  let ?d' = "snd (save_files spec_codec 0 tenants_db ''u'' ''a.txt'' [(20, ''x''), (30, ''y'')])"
  have none: "versions_of spec_codec tenants_db ''u'' ''none.txt'' = []" by code_simp
  have other: "versions_of spec_codec tenants_db ''w'' ''a.txt'' = []" by code_simp
  have some: "versions_of spec_codec tenants_db ''u'' ''a.txt'' \<noteq> []" by code_simp
  have v2: "get_file spec_codec tenants_db ''u'' ''a.txt'' True
       = Inr \<lparr>model_name = ''a.txt'', model_created_at = 10, model_parent_name = ''/'',
              model_content = Some ''v2''\<rparr>" by code_simp
  have older: "\<forall>r \<in> set (versions_of spec_codec tenants_db ''u'' ''a.txt'').
             file_created_at r < fst (hd [(20::int, ''x''), (30, ''y'')])"
    by code_simp
  have "fst (save_files spec_codec 0 tenants_db ''u'' ''a.txt'' [(20, ''x''), (30, ''y'')]) = Inr ()"
    by code_simp
  then have saved: "save_files spec_codec 0 tenants_db ''u'' ''a.txt'' [(20, ''x''), (30, ''y'')]
                      = (Inr (), ?d')"
    by (simp add: prod_eq_iff)
  have sp: "split_api_filepath spec_codec ''a.txt'' = (''/'', ''a.txt'')" by code_simp
  have sorted: "[(20::int, ''x''), (30, ''y'')] \<noteq> []
                \<and> sorted_wrt (<) (map fst [(20::int, ''x''), (30, ''y'')])" by simp
  note n = get_file_returns_latest_version
      [of spec_codec tenants_db "''u''" "''none.txt''" True "[]" 0 tenants_db]
  note w = get_file_returns_latest_version
      [of spec_codec tenants_db "''w''" "''a.txt''" True "[]" 0 tenants_db]
  note s = get_file_returns_latest_version
      [of spec_codec tenants_db "''u''" "''a.txt''" True "[(20, ''x''), (30, ''y'')]" 0 ?d']
  from n none have n1: "get_file spec_codec tenants_db ''u'' ''none.txt'' True = Inl (NoSuchFile [''none.txt''])"
    and n2: "file_exists spec_codec tenants_db ''u'' ''none.txt'' = Inr False"
    by simp_all
  from w other have w1: "get_file spec_codec tenants_db ''w'' ''a.txt'' True = Inl (NoSuchFile [''a.txt''])"
    by simp
  from s some have s1: "\<exists>r \<in> set (versions_of spec_codec tenants_db ''u'' ''a.txt'').
         get_file spec_codec tenants_db ''u'' ''a.txt'' True = Inr (file_to_dict True r)
         \<and> (\<forall>r' \<in> set (versions_of spec_codec tenants_db ''u'' ''a.txt'').
               file_created_at r' \<le> file_created_at r)"
    by blast
  from s v2 have s2: "file_exists spec_codec tenants_db ''u'' ''a.txt'' = Inr True"
    by simp
  from s sorted older saved have s3: "get_file spec_codec ?d' ''u'' ''a.txt'' True
       = Inr \<lparr>model_name = ''a.txt'', model_created_at = 30, model_parent_name = ''/'',
              model_content = Some ''y''\<rparr>"
    unfolding sp by simp
  from n1 n2 w1 s1 v2 s2 s3 show ?thesis by (intro conjI)
qed

subsection \<open>Pointer checkpoints\<close>

text \<open>
  Claim C9 (\<open>create_checkpoint\<close>). For a path with no version the scalar subquery is
  NULL, the \<open>INSERT\<close> of the single \<open>VALUES\<close> row fails in the store, and the
  store's \<open>IntegrityError\<close> propagates: the branch raising \<open>NoSuchFile\<close> on an empty
  result is not reached.
\<close>

theorem create_checkpoint_without_version:
  "create_checkpoint spec_codec 30 sample_db ''u'' ''none.txt''
     = (Inl (DBError (IntegrityError NOT_NULL_VIOLATION)), sample_db)"
  by code_simp

text \<open>
  Claim C6, as the code has it. Restoring checkpoint 1 of \<open>a.txt\<close> at time 7, which
  is not later than the other version's timestamp 10, succeeds, and \<open>get_file\<close> still
  returns the other version. Restoring checkpoint 1 and then checkpoint 2 at the same
  time 50 succeeds twice, and \<open>get_file\<close> returns the version of checkpoint 1, not
  the one restored last.
\<close>

theorem restore_checkpoint_not_latest:
  "fst (restore_checkpoint spec_codec 7 sample_db ''u'' ''a.txt'' 1) = Inr ()
   \<and> get_file spec_codec (snd (restore_checkpoint spec_codec 7 sample_db ''u'' ''a.txt'' 1))
        ''u'' ''a.txt'' True
       = Inr \<lparr>model_name = ''a.txt'', model_created_at = 10, model_parent_name = ''/'',
              model_content = Some ''v2''\<rparr>
   \<and> fst (restore_checkpoint spec_codec 50 tenants_db ''u'' ''a.txt'' 1) = Inr ()
   \<and> fst (restore_checkpoint spec_codec 50
             (snd (restore_checkpoint spec_codec 50 tenants_db ''u'' ''a.txt'' 1))
             ''u'' ''a.txt'' 2) = Inr ()
   \<and> get_file spec_codec
        (snd (restore_checkpoint spec_codec 50
                (snd (restore_checkpoint spec_codec 50 tenants_db ''u'' ''a.txt'' 1))
                ''u'' ''a.txt'' 2))
        ''u'' ''a.txt'' True
       = Inr \<lparr>model_name = ''a.txt'', model_created_at = 50, model_parent_name = ''/'',
              model_content = Some ''v1''\<rparr>"
  by code_simp

text \<open>
  Claim C6, amended (\<open>restore_checkpoint\<close>). When the checkpoint id stands for no
  version of the path (no checkpoint with this id, or one that references a row of
  another path or tenant), \<open>NoSuchFile\<close> is raised and the database is as before.
  Otherwise the call returns normally and exactly the versions of the path that the
  checkpoint id stands for get the current time as creation timestamp: the files table
  keeps its length, its ids and its contents. If moreover ids are unique, the checkpoint
  references a version \<open>r\<close> of the path and the current time is later than the
  timestamp of every other version of the path, then \<open>get_file\<close> on the path
  afterwards returns the content of \<open>r\<close>.
\<close>

theorem restore_checkpoint_promotes_version:
  "(checkpointed_versions pc d user_id path checkpoint_id = []
      \<longrightarrow> restore_checkpoint pc now d user_id path checkpoint_id = (Inl (NoSuchFile []), d))
   \<and> (checkpointed_versions pc d user_id path checkpoint_id \<noteq> []
      \<longrightarrow> restore_checkpoint pc now d user_id path checkpoint_id
            = (Inr (), d\<lparr>files :=
                 map (\<lambda>r. if r \<in> set (checkpointed_versions pc d user_id path checkpoint_id)
                          then r\<lparr>file_created_at := now\<rparr> else r) (files d)\<rparr>))
   \<and> length (files (snd (restore_checkpoint pc now d user_id path checkpoint_id)))
        = length (files d)
   \<and> map file_content (files (snd (restore_checkpoint pc now d user_id path checkpoint_id)))
        = map file_content (files d)
   \<and> map file_id (files (snd (restore_checkpoint pc now d user_id path checkpoint_id)))
        = map file_id (files d)
   \<and> (distinct (map file_id (files d)) \<and> distinct (map cp_id (checkpoints d))
       \<and> c \<in> set (checkpoints d) \<and> cp_id c = checkpoint_id
       \<and> r \<in> set (versions_of pc d user_id path) \<and> file_id r = cp_file_id c
       \<and> (\<forall>x \<in> set (versions_of pc d user_id path). x \<noteq> r \<longrightarrow> file_created_at x < now)
      \<longrightarrow> fst (restore_checkpoint pc now d user_id path checkpoint_id) = Inr ()
          \<and> get_file pc (snd (restore_checkpoint pc now d user_id path checkpoint_id))
               user_id path True
            = Inr \<lparr>model_name = file_name r, model_created_at = now,
                   model_parent_name = file_parent_name r,
                   model_content = Some (file_content r)\<rparr>)"
proof -
  let ?cv = "checkpointed_versions pc d user_id path checkpoint_id"
  let ?d' = "snd (restore_checkpoint pc now d user_id path checkpoint_id)"
  note fs = restore_checkpoint_files [of pc now d user_id path checkpoint_id]
  have a: "?cv = []
      \<longrightarrow> restore_checkpoint pc now d user_id path checkpoint_id = (Inl (NoSuchFile []), d)"
    using restore_checkpoint_no_match [of pc d user_id path checkpoint_id now]
    unfolding restore_match_versions by blast
  have b: "?cv \<noteq> []
      \<longrightarrow> restore_checkpoint pc now d user_id path checkpoint_id
            = (Inr (), d\<lparr>files :=
                 map (\<lambda>r. if r \<in> set ?cv then r\<lparr>file_created_at := now\<rparr> else r) (files d)\<rparr>)"
    by (simp add: restore_checkpoint_result)
  have l: "length (files ?d') = length (files d)" by (simp add: fs)
  have k: "map file_content (files ?d') = map file_content (files d)"
    unfolding fs by (induction "files d") simp_all
  have i: "map file_id (files ?d') = map file_id (files d)"
    unfolding fs by (induction "files d") simp_all
  have e: "distinct (map file_id (files d)) \<and> distinct (map cp_id (checkpoints d))
       \<and> c \<in> set (checkpoints d) \<and> cp_id c = checkpoint_id
       \<and> r \<in> set (versions_of pc d user_id path) \<and> file_id r = cp_file_id c
       \<and> (\<forall>x \<in> set (versions_of pc d user_id path). x \<noteq> r \<longrightarrow> file_created_at x < now)
      \<longrightarrow> fst (restore_checkpoint pc now d user_id path checkpoint_id) = Inr ()
          \<and> get_file pc ?d' user_id path True
            = Inr \<lparr>model_name = file_name r, model_created_at = now,
                   model_parent_name = file_parent_name r,
                   model_content = Some (file_content r)\<rparr>"
  proof (intro impI, elim conjE)
    assume h: "distinct (map file_id (files d))" "distinct (map cp_id (checkpoints d))"
      "c \<in> set (checkpoints d)" "cp_id c = checkpoint_id"
      and rv: "r \<in> set (versions_of pc d user_id path)"
      and rid: "file_id r = cp_file_id c"
      and later: "\<forall>x \<in> set (versions_of pc d user_id path). x \<noteq> r \<longrightarrow> file_created_at x < now"
    from rv have rf: "r \<in> set (files d)" and rw: "file_where pc user_id path r"
      unfolding file_where_versions [symmetric] by simp_all
    from later have later': "\<forall>x \<in> set (filter (file_where pc user_id path) (files d)).
                  x \<noteq> r \<longrightarrow> file_created_at x < now"
      unfolding file_where_versions .
    from rv h(3,4) rid have "r \<in> set ?cv"
      by (auto simp: checkpointed_versions_def)
    then have "?cv \<noteq> []" by (rule in_set_not_nil)
    with b have "fst (restore_checkpoint pc now d user_id path checkpoint_id) = Inr ()" by simp
    with restore_checkpoint_then_get [OF h rf rid rw later']
    show "fst (restore_checkpoint pc now d user_id path checkpoint_id) = Inr ()
          \<and> get_file pc ?d' user_id path True
            = Inr \<lparr>model_name = file_name r, model_created_at = now,
                   model_parent_name = file_parent_name r,
                   model_content = Some (file_content r)\<rparr>" by simp
  qed
  from a b l k i e show ?thesis by (intro conjI)
qed

theorem restore_checkpoint_promotes_version_witness:
  "restore_checkpoint spec_codec 50 tenants_db ''u'' ''a.txt'' 9 = (Inl (NoSuchFile []), tenants_db)
   \<and> restore_checkpoint spec_codec 50 tenants_db ''u'' ''a.txt'' 3
       = (Inl (NoSuchFile []), tenants_db)
   \<and> restore_checkpoint spec_codec 50 tenants_db ''u'' ''b.txt'' 1
       = (Inl (NoSuchFile []), tenants_db)
   \<and> restore_checkpoint spec_codec 50 tenants_db ''u'' ''docs/a.txt'' 1
       = (Inl (NoSuchFile []), tenants_db)
   \<and> fst (restore_checkpoint spec_codec 50 tenants_db ''u'' ''a.txt'' 1) = Inr ()
   \<and> get_file spec_codec (snd (restore_checkpoint spec_codec 50 tenants_db ''u'' ''a.txt'' 1))
        ''u'' ''a.txt'' True
       = Inr \<lparr>model_name = ''a.txt'', model_created_at = 50, model_parent_name = ''/'',
              model_content = Some ''v1''\<rparr>
   \<and> map file_created_at
        (files (snd (restore_checkpoint spec_codec 50 tenants_db ''u'' ''a.txt'' 1)))
       = [50, 10, 99, 77, 88]
   \<and> length (files (snd (restore_checkpoint spec_codec 50 tenants_db ''u'' ''a.txt'' 1))) = 5"
proof -
  let ?c = "\<lparr>cp_id = 1, cp_file_id = 1, cp_created_at = 6\<rparr>"
  let ?r = "\<lparr>file_id = 1, file_name = ''a.txt'', file_user_id = ''u'', file_parent_name = ''/'',
             file_content = ''v1'', file_created_at = 5\<rparr>"
  have n1: "checkpointed_versions spec_codec tenants_db ''u'' ''a.txt'' 9 = []" by code_simp
  have n2: "checkpointed_versions spec_codec tenants_db ''u'' ''a.txt'' 3 = []" by code_simp
  have n3: "checkpointed_versions spec_codec tenants_db ''u'' ''b.txt'' 1 = []" by code_simp
  have n4: "checkpointed_versions spec_codec tenants_db ''u'' ''docs/a.txt'' 1 = []" by code_simp
  have cv: "checkpointed_versions spec_codec tenants_db ''u'' ''a.txt'' 1 = [?r]" by code_simp
  have h1: "distinct (map file_id (files tenants_db))" by code_simp
  have h2: "distinct (map cp_id (checkpoints tenants_db))" by code_simp
  have h3: "?c \<in> set (checkpoints tenants_db)" by code_simp
  have h4: "?r \<in> set (versions_of spec_codec tenants_db ''u'' ''a.txt'')" by code_simp
  have h6: "\<forall>x \<in> set (versions_of spec_codec tenants_db ''u'' ''a.txt'').
              x \<noteq> ?r \<longrightarrow> file_created_at x < 50" by code_simp
  have len: "length (files tenants_db) = 5" by code_simp
  note t9 = restore_checkpoint_promotes_version
      [of spec_codec tenants_db "''u''" "''a.txt''" 9 50 ?c ?r]
  note t3 = restore_checkpoint_promotes_version
      [of spec_codec tenants_db "''u''" "''a.txt''" 3 50 ?c ?r]
  note tb = restore_checkpoint_promotes_version
      [of spec_codec tenants_db "''u''" "''b.txt''" 1 50 ?c ?r]
  note td = restore_checkpoint_promotes_version
      [of spec_codec tenants_db "''u''" "''docs/a.txt''" 1 50 ?c ?r]
  note m = restore_checkpoint_promotes_version
      [of spec_codec tenants_db "''u''" "''a.txt''" 1 50 ?c ?r]
  from t9 n1 have a1: "restore_checkpoint spec_codec 50 tenants_db ''u'' ''a.txt'' 9
                         = (Inl (NoSuchFile []), tenants_db)" by blast
  from t3 n2 have a2: "restore_checkpoint spec_codec 50 tenants_db ''u'' ''a.txt'' 3
                         = (Inl (NoSuchFile []), tenants_db)" by blast
  from tb n3 have a3: "restore_checkpoint spec_codec 50 tenants_db ''u'' ''b.txt'' 1
                         = (Inl (NoSuchFile []), tenants_db)" by blast
  from td n4 have a4: "restore_checkpoint spec_codec 50 tenants_db ''u'' ''docs/a.txt'' 1
                         = (Inl (NoSuchFile []), tenants_db)" by blast
  from m h1 h2 h3 h4 h6
  have b: "fst (restore_checkpoint spec_codec 50 tenants_db ''u'' ''a.txt'' 1) = Inr ()
     \<and> get_file spec_codec (snd (restore_checkpoint spec_codec 50 tenants_db ''u'' ''a.txt'' 1))
        ''u'' ''a.txt'' True
       = Inr \<lparr>model_name = ''a.txt'', model_created_at = 50, model_parent_name = ''/'',
              model_content = Some ''v1''\<rparr>" by simp
  have "checkpointed_versions spec_codec tenants_db ''u'' ''a.txt'' 1 \<noteq> []"
    unfolding cv by simp
  with m have "files (snd (restore_checkpoint spec_codec 50 tenants_db ''u'' ''a.txt'' 1))
      = map (\<lambda>r. if r \<in> set (checkpointed_versions spec_codec tenants_db ''u'' ''a.txt'' 1)
                  then r\<lparr>file_created_at := 50\<rparr> else r) (files tenants_db)"
    by simp
  then have ts: "map file_created_at
        (files (snd (restore_checkpoint spec_codec 50 tenants_db ''u'' ''a.txt'' 1)))
       = [50, 10, 99, 77, 88]"
    unfolding cv by (simp add: tenants_db_def)
  from m len
  have c: "length (files (snd (restore_checkpoint spec_codec 50 tenants_db ''u'' ''a.txt'' 1))) = 5"
    by simp
  from a1 a2 a3 a4 b ts c show ?thesis by (intro conjI) simp_all
qed

subsection \<open>Snapshot checkpoints\<close>

text \<open>
  Claim C10. The bulk operations \<open>delete_remote_checkpoints\<close>,
  \<open>move_remote_checkpoints\<close> and \<open>purge_remote_checkpoints\<close> always return normally,
  and when no row matches they leave the database as it was. The single-checkpoint
  operations \<open>delete_single_remote_checkpoint\<close> and
  \<open>move_single_remote_checkpoint\<close>, given a checkpoint id that \<open>int\<close> reads, raise
  \<open>NoSuchCheckpoint\<close> when no row matches.
\<close>

theorem bulk_remote_checkpoint_ops_never_raise:
  "fst (delete_remote_checkpoints pc d user_id api_path) = Inr ()
   \<and> fst (move_remote_checkpoints pc d user_id api_path dest_api_path) = Inr ()
   \<and> fst (purge_remote_checkpoints d user_id) = Inr ()
   \<and> (filter (\<lambda>r. rc_user_id r = user_id \<and> rc_path r = from_api_filename pc api_path)
         (remote_checkpoints d) = []
       \<longrightarrow> delete_remote_checkpoints pc d user_id api_path = (Inr (), d)
         \<and> move_remote_checkpoints pc d user_id api_path dest_api_path = (Inr (), d))
   \<and> (filter (\<lambda>r. rc_user_id r = user_id) (remote_checkpoints d) = []
       \<longrightarrow> purge_remote_checkpoints d user_id = (Inr (), d))
   \<and> (py_int checkpoint_id = Some cid
       \<and> filter (\<lambda>r. rc_user_id r = user_id \<and> rc_path r = from_api_filename pc api_path
                     \<and> rc_id r = cid) (remote_checkpoints d) = []
       \<longrightarrow> delete_single_remote_checkpoint pc d user_id api_path checkpoint_id
             = (Inl (NoSuchCheckpoint [api_path, checkpoint_id]), d)
         \<and> move_single_remote_checkpoint pc d user_id api_path dest_api_path checkpoint_id
             = (Inl (NoSuchCheckpoint [api_path, checkpoint_id]), d))"
proof -
  have a: "fst (delete_remote_checkpoints pc d user_id api_path) = Inr ()"
    by (simp add: delete_remote_checkpoints_def Let_def)
  have b: "fst (move_remote_checkpoints pc d user_id api_path dest_api_path) = Inr ()"
    by (simp add: move_remote_checkpoints_def Let_def)
  have c: "fst (purge_remote_checkpoints d user_id) = Inr ()"
    by (simp add: purge_remote_checkpoints_def)
  have e: "delete_remote_checkpoints pc d user_id api_path = (Inr (), d)
           \<and> move_remote_checkpoints pc d user_id api_path dest_api_path = (Inr (), d)"
    if "filter (\<lambda>r. rc_user_id r = user_id \<and> rc_path r = from_api_filename pc api_path)
          (remote_checkpoints d) = []"
    using filter_none_keeps [OF that] map_none_keeps [OF that]
    by (simp add: delete_remote_checkpoints_def move_remote_checkpoints_def Let_def)
  have f: "purge_remote_checkpoints d user_id = (Inr (), d)"
    if "filter (\<lambda>r. rc_user_id r = user_id) (remote_checkpoints d) = []"
    using filter_none_keeps [OF that] by (simp add: purge_remote_checkpoints_def)
  have g: "delete_single_remote_checkpoint pc d user_id api_path checkpoint_id
             = (Inl (NoSuchCheckpoint [api_path, checkpoint_id]), d)
         \<and> move_single_remote_checkpoint pc d user_id api_path dest_api_path checkpoint_id
             = (Inl (NoSuchCheckpoint [api_path, checkpoint_id]), d)"
    if p: "py_int checkpoint_id = Some cid"
      and z: "filter (\<lambda>r. rc_user_id r = user_id \<and> rc_path r = from_api_filename pc api_path
                     \<and> rc_id r = cid) (remote_checkpoints d) = []"
    using p z filter_none_keeps [OF z] map_none_keeps [OF z]
    by (simp add: delete_single_remote_checkpoint_def move_single_remote_checkpoint_def Let_def)
  show ?thesis using a b c e f g by blast
qed

theorem bulk_remote_checkpoint_ops_never_raise_witness:
  "delete_remote_checkpoints spec_codec sample_db ''u'' ''none.txt'' = (Inr (), sample_db)
   \<and> move_remote_checkpoints spec_codec sample_db ''u'' ''none.txt'' ''other.txt'' = (Inr (), sample_db)
   \<and> purge_remote_checkpoints sample_db ''w'' = (Inr (), sample_db)
   \<and> delete_single_remote_checkpoint spec_codec sample_db ''u'' ''none.txt'' ''7''
       = (Inl (NoSuchCheckpoint [''none.txt'', ''7'']), sample_db)
   \<and> move_single_remote_checkpoint spec_codec sample_db ''u'' ''none.txt'' ''other.txt'' ''7''
       = (Inl (NoSuchCheckpoint [''none.txt'', ''7'']), sample_db)"
proof -
  have p: "py_int ''7'' = Some 7" by code_simp
  have z1: "filter (\<lambda>r. rc_user_id r = ''u'' \<and> rc_path r = from_api_filename spec_codec ''none.txt'')
         (remote_checkpoints sample_db) = []" by code_simp
  have z2: "filter (\<lambda>r. rc_user_id r = ''w'') (remote_checkpoints sample_db) = []"
    by code_simp
  have z3: "filter (\<lambda>r. rc_user_id r = ''u'' \<and> rc_path r = from_api_filename spec_codec ''none.txt''
                     \<and> rc_id r = 7) (remote_checkpoints sample_db) = []" by code_simp
  show ?thesis
    using bulk_remote_checkpoint_ops_never_raise [of spec_codec sample_db "''u''" "''none.txt''"
        "''other.txt''" "''7''" 7] bulk_remote_checkpoint_ops_never_raise [of spec_codec sample_db "''w''" "''none.txt''"
        "''other.txt''" "''7''" 7] p z1 z2 z3
    by blast
qed

text \<open>
  Claim C7 (\<open>latest_remote_checkpoints\<close>). The result has no two records with the
  same path; its paths are exactly the paths of the tenant's snapshot checkpoints; and
  every record is the id and path of a snapshot checkpoint of the tenant whose
  \<open>last_modified\<close> is the maximum over the tenant's snapshots of that path.
\<close>

theorem latest_remote_checkpoints_one_per_path:
  "distinct (map snd (latest_remote_checkpoints d user_id))
   \<and> set (map snd (latest_remote_checkpoints d user_id))
       = rc_path ` {r \<in> set (remote_checkpoints d). rc_user_id r = user_id}
   \<and> (\<forall>e \<in> set (latest_remote_checkpoints d user_id).
         \<exists>r \<in> set (remote_checkpoints d).
           rc_id r = fst e \<and> rc_path r = snd e \<and> rc_user_id r = user_id
           \<and> (\<forall>r' \<in> set (remote_checkpoints d).
                 rc_user_id r' = user_id \<and> rc_path r' = snd e
                 \<longrightarrow> rc_last_modified r' \<le> rc_last_modified r))"
proof -
  let ?own = "filter (\<lambda>r. rc_user_id r = user_id) (remote_checkpoints d)"
  let ?sorted = "sort_key (\<lambda>r. (rc_path r, - rc_last_modified r)) ?own"
  let ?rows = "distinct_on rc_path [] ?sorted"
  have res: "latest_remote_checkpoints d user_id = map (\<lambda>r. (rc_id r, rc_path r)) ?rows"
    by (simp add: latest_remote_checkpoints_def)
  have paths: "map snd (latest_remote_checkpoints d user_id) = map rc_path ?rows"
    by (simp add: res comp_def)
  have a: "distinct (map snd (latest_remote_checkpoints d user_id))"
    unfolding paths by (rule distinct_on_distinct)
  have "rc_path ` set ?rows = rc_path ` set ?sorted"
    using distinct_on_keys [of rc_path "[]" ?sorted] by simp
  then have b: "set (map snd (latest_remote_checkpoints d user_id))
       = rc_path ` {r \<in> set (remote_checkpoints d). rc_user_id r = user_id}"
    unfolding paths by simp
  have c: "\<exists>r \<in> set (remote_checkpoints d).
           rc_id r = fst e \<and> rc_path r = snd e \<and> rc_user_id r = user_id
           \<and> (\<forall>r' \<in> set (remote_checkpoints d).
                 rc_user_id r' = user_id \<and> rc_path r' = snd e
                 \<longrightarrow> rc_last_modified r' \<le> rc_last_modified r)"
    if e: "e \<in> set (latest_remote_checkpoints d user_id)" for e
  proof -
    from e obtain r where r: "r \<in> set ?rows" and er: "e = (rc_id r, rc_path r)"
      unfolding res by auto
    from r distinct_on_subset [of rc_path "[]" ?sorted] have "r \<in> set ?sorted" by blast
    then have own: "r \<in> set (remote_checkpoints d)" "rc_user_id r = user_id" by simp_all
    have srt: "sorted (map (\<lambda>r. (rc_path r, - rc_last_modified r)) ?sorted)"
      by (rule sorted_sort_key)
    have "rc_last_modified r' \<le> rc_last_modified r"
      if "r' \<in> set (remote_checkpoints d)" "rc_user_id r' = user_id" "rc_path r' = rc_path r"
      for r'
    proof -
      from that have "r' \<in> set ?sorted" by simp
      from distinct_on_sorted_least [of rc_path "\<lambda>r. - rc_last_modified r", OF srt r this that(3)]
      show ?thesis by simp
    qed
    with own er show ?thesis by auto
  qed
  from a b c show ?thesis by blast
qed

theorem latest_remote_checkpoints_one_per_path_witness:
  "latest_remote_checkpoints sample_db ''u'' = [(2, ''/a.txt''), (3, ''/b.txt'')]
   \<and> distinct (map snd (latest_remote_checkpoints sample_db ''u''))
   \<and> (\<exists>r \<in> set (remote_checkpoints sample_db).
         rc_id r = 2 \<and> rc_path r = ''/a.txt'' \<and> rc_user_id r = ''u''
         \<and> (\<forall>r' \<in> set (remote_checkpoints sample_db).
               rc_user_id r' = ''u'' \<and> rc_path r' = ''/a.txt''
               \<longrightarrow> rc_last_modified r' \<le> rc_last_modified r))"
proof -
  have v: "latest_remote_checkpoints sample_db ''u'' = [(2, ''/a.txt''), (3, ''/b.txt'')]"
    by code_simp
  then have m: "(2, ''/a.txt'') \<in> set (latest_remote_checkpoints sample_db ''u'')" by simp
  note t = latest_remote_checkpoints_one_per_path [of sample_db "''u''"]
  from t have a: "distinct (map snd (latest_remote_checkpoints sample_db ''u''))" by blast
  from t m have b: "\<exists>r \<in> set (remote_checkpoints sample_db).
         rc_id r = fst (2::int, ''/a.txt'') \<and> rc_path r = snd (2::int, ''/a.txt'') \<and> rc_user_id r = ''u''
         \<and> (\<forall>r' \<in> set (remote_checkpoints sample_db).
               rc_user_id r' = ''u'' \<and> rc_path r' = snd (2::int, ''/a.txt'')
               \<longrightarrow> rc_last_modified r' \<le> rc_last_modified r)" by blast
  from v a b show ?thesis by simp
qed

end
